theory Spec2Isabelle
  imports Main "HOL-Library.AList"
begin

section \<open>Python values and the built-ins the endpoints call\<close>

text \<open>
  The endpoints work on the values the database driver hands back: times of day
  (\<^verbatim>\<open>datetime.time\<close>, read through \<^verbatim>\<open>.hour\<close> and \<^verbatim>\<open>.minute\<close>), strings, lists, and
  \<^verbatim>\<open>None\<close> for a NULL column; they answer with dictionaries. Strings are lists of
  ASCII characters; the three pictographs of the messages are written as their UTF-8
  bytes. Text beyond ASCII in the stored data is outside this model.
\<close>

record time_of_day =
  hour :: int
  minute :: int
  second :: int

datatype pyval =
    PyNone
  | PyInt int
  | PyStr string
  | PyTime time_of_day
  | PyDate int
  | PyList "pyval list"
  | PyDict "(string \<times> pyval) list"

text \<open>
  What the endpoints can raise: an attribute read on a value that lacks it, a failed
  \<^verbatim>\<open>int(...)\<close> or tuple unpacking, and the \<^verbatim>\<open>HTTPException\<close> of \<^verbatim>\<open>update_habit\<close>.
\<close>

datatype error = AttributeError | ValueError | HTTPException int string

subsection \<open>Formatting integers\<close>

definition digit_char :: "nat \<Rightarrow> char" where
  "digit_char n = char_of (48 + n)"

fun digits :: "nat \<Rightarrow> string" where
  "digits n = (if n < 10 then [digit_char n] else digits (n div 10) @ [digit_char (n mod 10)])"

declare digits.simps [simp del]

text \<open>\<^verbatim>\<open>f"{n}"\<close> for an integer: the decimal digits, with a minus sign when negative.\<close>

definition fmt_d :: "int \<Rightarrow> string" where
  "fmt_d n = (if n < 0 then CHR ''-'' # digits (nat (- n)) else digits (nat n))"

text \<open>
  \<^verbatim>\<open>f"{n:02d}"\<close>: zero-padded to width two. The sign counts towards the width, so a
  negative number is never padded.
\<close>

definition fmt02d :: "int \<Rightarrow> string" where
  "fmt02d n = (if 0 \<le> n \<and> n < 10 then CHR ''0'' # digits (nat n) else fmt_d n)"

subsection \<open>Parsing integers: \<^verbatim>\<open>int(s)\<close> on an ASCII string\<close>

definition is_space :: "char \<Rightarrow> bool" where
  "is_space c = (c \<in> set [CHR 0x09, CHR 0x0A, CHR 0x0B, CHR 0x0C, CHR 0x0D, CHR 0x20])"

definition is_digit :: "char \<Rightarrow> bool" where
  "is_digit c = (48 \<le> (of_char c :: nat) \<and> (of_char c :: nat) \<le> 57)"

definition digit_val :: "char \<Rightarrow> nat" where
  "digit_val c = of_char c - 48"

definition strip :: "string \<Rightarrow> string" where
  "strip s = rev (dropWhile is_space (rev (dropWhile is_space s)))"

text \<open>
  The digits of a literal: a single underscore may stand between two digits. The flag
  says that a digit must come next (at the start and after an underscore).
\<close>

fun py_digits :: "bool \<Rightarrow> nat \<Rightarrow> string \<Rightarrow> nat option" where
  "py_digits need acc [] = (if need then None else Some acc)"
| "py_digits need acc (c # cs) =
     (if is_digit c then py_digits False (10 * acc + digit_val c) cs
      else if c = CHR ''_'' \<and> \<not> need then py_digits True acc cs
      else None)"

text \<open>
  \<^verbatim>\<open>int(s)\<close>: surrounding whitespace, an optional sign, digits. \<open>None\<close> is ValueError.
  The limit that recent Python versions put on the length of such a literal is left out.
\<close>

definition py_int :: "string \<Rightarrow> int option" where
  "py_int s =
     (case strip s of
        [] \<Rightarrow> None
      | c # cs \<Rightarrow>
          if c = CHR ''-'' then map_option (\<lambda>n. - int n) (py_digits True 0 cs)
          else if c = CHR ''+'' then map_option int (py_digits True 0 cs)
          else map_option int (py_digits True 0 (c # cs)))"

text \<open>\<^verbatim>\<open>s.split(":")\<close>: the pieces between colons; never an empty list.\<close>

fun split_colon :: "string \<Rightarrow> string list" where
  "split_colon [] = [[]]"
| "split_colon (c # cs) =
     (if c = CHR '':'' then [] # split_colon cs
      else (case split_colon cs of
              p # ps \<Rightarrow> (c # p) # ps
            | [] \<Rightarrow> [[c]]))"

text \<open>
  \<^verbatim>\<open>h, m = map(int, time.split(":"))\<close>: exactly two pieces, each an integer literal.
  A wrong number of pieces and a piece that is no literal both raise ValueError.
\<close>

definition parse_hm :: "string \<Rightarrow> error + (int \<times> int)" where
  "parse_hm s =
     (case split_colon s of
        [a, b] \<Rightarrow>
          (case py_int a of
             None \<Rightarrow> Inl ValueError
           | Some h \<Rightarrow>
               (case py_int b of
                  None \<Rightarrow> Inl ValueError
                | Some m \<Rightarrow> Inr (h, m)))
      | _ \<Rightarrow> Inl ValueError)"

section \<open>The database\<close>

text \<open>
  Modelled from the spec: the declarations of the three tables are not among the
  sources. A table is the list of its rows, in stored order, with the columns the
  queries of the endpoints name. \<open>adjustment_id\<close> is never given by an INSERT: it is
  drawn from a sequence. \<open>date_applied\<close> of a history row is never given either: it
  is the resolution date of the spec's HistoryEntry, the current date at the insert.
  Dates are day numbers. The value columns keep the Python value that was passed as
  the query parameter.
\<close>

record adjustment =
  a_adjustment_id :: int
  a_user_id :: int
  a_applied_on :: int
  a_current_value :: pyval
  a_next_suggested_value :: pyval
  a_reason :: string
  a_status :: string
  a_habit :: string

record history =
  h_user_id :: int
  h_habit :: string
  h_previous_value :: pyval
  h_new_value :: pyval
  h_status :: string
  h_date_applied :: int

record routine =
  r_user_id :: int
  r_date :: int
  r_wake_up_time :: pyval
  r_sleep_time :: pyval
  r_meal_times :: pyval
  r_energy_level :: pyval
  r_stress_level :: pyval
  r_bad_habits :: pyval
  r_workout :: pyval

record db =
  habit_adjustments :: "adjustment list"
  habit_history :: "history list"
  daily_routines :: "routine list"
  adjustment_seq :: int

text \<open>
  \<^verbatim>\<open>get_db_connection\<close>: the connection, or \<^verbatim>\<open>None\<close> when the store cannot be reached.
  Whether it can is the environment's choice, the flag \<open>reachable\<close>. Statements run
  on the connection's own view of the data, which replaces the stored data at
  \<^verbatim>\<open>commit\<close>; an endpoint that returns or raises before its commit leaves the stored
  data as it was.
\<close>

definition get_db_connection :: "bool \<Rightarrow> db \<Rightarrow> db option" where
  "get_db_connection reachable d = (if reachable then Some d else None)"

definition insert_adjustment ::
  "db \<Rightarrow> int \<Rightarrow> int \<Rightarrow> pyval \<Rightarrow> pyval \<Rightarrow> string \<Rightarrow> string \<Rightarrow> db" where
  "insert_adjustment cur uid today cv nv rsn hb =
     cur\<lparr>habit_adjustments := habit_adjustments cur @
            [\<lparr>a_adjustment_id = adjustment_seq cur, a_user_id = uid, a_applied_on = today,
              a_current_value = cv, a_next_suggested_value = nv, a_reason = rsn,
              a_status = ''pending'', a_habit = hb\<rparr>],
         adjustment_seq := adjustment_seq cur + 1\<rparr>"

definition insert_history ::
  "db \<Rightarrow> int \<Rightarrow> int \<Rightarrow> string \<Rightarrow> pyval \<Rightarrow> pyval \<Rightarrow> string \<Rightarrow> db" where
  "insert_history cur today uid hb pv nv st =
     cur\<lparr>habit_history := habit_history cur @
            [\<lparr>h_user_id = uid, h_habit = hb, h_previous_value = pv, h_new_value = nv,
              h_status = st, h_date_applied = today\<rparr>]\<rparr>"

definition delete_adjustment :: "db \<Rightarrow> int \<Rightarrow> db" where
  "delete_adjustment cur aid =
     cur\<lparr>habit_adjustments := filter (\<lambda>a. a_adjustment_id a \<noteq> aid) (habit_adjustments cur)\<rparr>"

definition fetch_adjustment :: "db \<Rightarrow> int \<Rightarrow> adjustment option" where
  "fetch_adjustment cur aid = find (\<lambda>a. a_adjustment_id a = aid) (habit_adjustments cur)"

section \<open>The lifecycle manager: \<^verbatim>\<open>update_habit\<close>\<close>

definition invalid_status_detail :: string where
  "invalid_status_detail =
     ''Invalid status. Must be '' @ [CHR 0x27] @ ''accepted'' @ [CHR 0x27] @ '' or '' @
     [CHR 0x27] @ ''rejected'' @ [CHR 0x27] @ ''.''"

definition cross_mark :: string where
  "cross_mark = [CHR 0xE2, CHR 0x9D, CHR 0x8C]"

definition check_mark :: string where
  "check_mark = [CHR 0xE2, CHR 0x9C, CHR 0x85]"

definition not_found_response :: pyval where
  "not_found_response =
     PyDict [(''error'', PyStr (cross_mark @ '' No habit adjustment found for this ID.''))]"

definition moved_response :: "int \<Rightarrow> string \<Rightarrow> pyval" where
  "moved_response adjustment_id status =
     PyDict [(''message'', PyStr (check_mark @ '' Habit adjustment '' @ fmt_d adjustment_id @
        '' marked as '' @ status @ '' and moved to history.''))]"

text \<open>
  The endpoint returns its answer (or raises) and leaves the stored data in the second
  component. With no connection the body is skipped and the function returns \<^verbatim>\<open>None\<close>.
\<close>

definition update_habit ::
  "bool \<Rightarrow> int \<Rightarrow> int \<Rightarrow> string \<Rightarrow> db \<Rightarrow> (error + pyval) \<times> db" where
  "update_habit reachable today adjustment_id status d =
     (if status \<notin> set [''accepted'', ''rejected'']
      then (Inl (HTTPException 400 invalid_status_detail), d)
      else
        (case get_db_connection reachable d of
           None \<Rightarrow> (Inr PyNone, d)
         | Some cur \<Rightarrow>
             (case fetch_adjustment cur adjustment_id of
                None \<Rightarrow> (Inr not_found_response, d)
              | Some adjustment \<Rightarrow>
                  (let cur1 =
                         (if status = ''accepted''
                          then insert_history cur today (a_user_id adjustment) (a_habit adjustment)
                                 (a_current_value adjustment) (a_next_suggested_value adjustment)
                                 ''accepted''
                          else if status = ''rejected''
                          then insert_history cur today (a_user_id adjustment) (a_habit adjustment)
                                 (a_current_value adjustment) (a_next_suggested_value adjustment)
                                 ''rejected''
                          else cur);
                       cur2 = delete_adjustment cur1 adjustment_id
                   in (Inr (moved_response adjustment_id status), cur2)))))"

section \<open>The rule engine: \<^verbatim>\<open>adjust_habits\<close>\<close>

text \<open>The set of habit names with a pending row of the user.\<close>

definition existing_habits :: "db \<Rightarrow> int \<Rightarrow> string set" where
  "existing_habits cur uid =
     set (map a_habit
       (filter (\<lambda>a. a_user_id a = uid \<and> a_status a = ''pending'') (habit_adjustments cur)))"

text \<open>
  \<^verbatim>\<open>ORDER BY date DESC LIMIT 1\<close>: a row of the greatest date (among rows of one date,
  the one stored first).
\<close>

fun latest :: "routine list \<Rightarrow> routine option" where
  "latest [] = None"
| "latest (r # rs) =
     (case latest rs of
        None \<Rightarrow> Some r
      | Some r' \<Rightarrow> if r_date r < r_date r' then Some r' else Some r)"

definition fetch_latest_routine :: "db \<Rightarrow> int \<Rightarrow> routine option" where
  "fetch_latest_routine cur uid = latest (filter (\<lambda>r. r_user_id r = uid) (daily_routines cur))"

definition proposal :: "string \<Rightarrow> pyval \<Rightarrow> pyval" where
  "proposal hb v = PyDict [(''habit'', PyStr hb), (''suggested_change'', v)]"

text \<open>\<^verbatim>\<open>sleep_time.hour > 1\<close>; only a time of day has the attribute.\<close>

definition sleeps_late :: "pyval \<Rightarrow> error + bool" where
  "sleeps_late v = (case v of PyTime t \<Rightarrow> Inr (1 < hour t) | _ \<Rightarrow> Inl AttributeError)"

text \<open>
  Each rule takes the list \<^verbatim>\<open>adjustments\<close> built so far and the cursor's view of the
  data, and returns both, or raises.
\<close>

definition wake_up_rule ::
  "string set \<Rightarrow> int \<Rightarrow> int \<Rightarrow> routine \<Rightarrow> pyval list \<times> db \<Rightarrow> error + pyval list \<times> db" where
  "wake_up_rule existing uid today r st =
     (if ''wake_up_time'' \<in> existing then Inr st
      else
        (case sleeps_late (r_sleep_time r) of
           Inl e \<Rightarrow> Inl e
         | Inr False \<Rightarrow> Inr st
         | Inr True \<Rightarrow>
             (case r_wake_up_time r of
                PyTime w \<Rightarrow>
                  (let new_wake_time = fmt02d (max 6 (hour w - 1)) @ '':'' @ fmt02d (minute w)
                   in Inr (fst st @ [proposal ''wake_up_time'' (PyStr new_wake_time)],
                           insert_adjustment (snd st) uid today (r_wake_up_time r)
                             (PyStr new_wake_time) ''Gradual wake-up shift'' ''wake_up_time''))
              | _ \<Rightarrow> Inl AttributeError)))"

definition sleep_rule ::
  "string set \<Rightarrow> int \<Rightarrow> int \<Rightarrow> routine \<Rightarrow> pyval list \<times> db \<Rightarrow> error + pyval list \<times> db" where
  "sleep_rule existing uid today r st =
     (if ''sleep_time'' \<in> existing then Inr st
      else
        (case sleeps_late (r_sleep_time r) of
           Inl e \<Rightarrow> Inl e
         | Inr False \<Rightarrow> Inr st
         | Inr True \<Rightarrow>
             (case r_sleep_time r of
                PyTime s \<Rightarrow>
                  (let new_sleep_time = fmt02d (max 22 (hour s - 1)) @ '':'' @ fmt02d (minute s)
                   in Inr (fst st @ [proposal ''sleep_time'' (PyStr new_sleep_time)],
                           insert_adjustment (snd st) uid today (r_sleep_time r)
                             (PyStr new_sleep_time) ''Improve sleep quality'' ''sleep_time''))
              | _ \<Rightarrow> Inl AttributeError)))"

text \<open>
  The loop over the meal times: the accumulator is \<^verbatim>\<open>new_meal_times\<close> and the cursor's
  view. An entry that is no string has no \<^verbatim>\<open>split\<close>.
\<close>

fun meal_loop :: "int \<Rightarrow> int \<Rightarrow> pyval list \<Rightarrow> pyval list \<times> db \<Rightarrow> error + pyval list \<times> db" where
  "meal_loop uid today [] acc = Inr acc"
| "meal_loop uid today (t # ts) acc =
     (case t of
        PyStr s \<Rightarrow>
          (case parse_hm s of
             Inl e \<Rightarrow> Inl e
           | Inr (h, m) \<Rightarrow>
               (let new_time = fmt02d (max 6 (h - 1)) @ '':'' @ fmt02d m
                in meal_loop uid today ts
                     (fst acc @ [PyStr new_time],
                      insert_adjustment (snd acc) uid today t (PyStr new_time)
                        ''Optimize meal timing'' ''meal_times'')))
      | _ \<Rightarrow> Inl AttributeError)"

definition meal_rule ::
  "string set \<Rightarrow> int \<Rightarrow> int \<Rightarrow> routine \<Rightarrow> pyval list \<times> db \<Rightarrow> error + pyval list \<times> db" where
  "meal_rule existing uid today r st =
     (if ''meal_times'' \<in> existing then Inr st
      else
        (case r_meal_times r of
           PyList meal_times \<Rightarrow>
             (case meal_loop uid today meal_times ([], snd st) of
                Inl e \<Rightarrow> Inl e
              | Inr (new_meal_times, cur) \<Rightarrow>
                  Inr (fst st @ [proposal ''meal_times'' (PyList new_meal_times)], cur))
         | _ \<Rightarrow> Inr st))"

text \<open>
  \<^verbatim>\<open>str\<close> of a list is the work of Python's built-in, not of this program: it is the
  parameter \<open>py_str\<close>. \<^verbatim>\<open>bad_habits[:-1]\<close> on a non-empty list is \<open>butlast\<close>.
\<close>

definition bad_habits_rule ::
  "(pyval \<Rightarrow> string) \<Rightarrow> string set \<Rightarrow> int \<Rightarrow> int \<Rightarrow> routine \<Rightarrow> pyval list \<times> db \<Rightarrow>
     error + pyval list \<times> db" where
  "bad_habits_rule py_str existing uid today r st =
     (if ''bad_habits'' \<in> existing then Inr st
      else
        (case r_bad_habits r of
           PyList bad_habits \<Rightarrow>
             (if bad_habits \<noteq> []
              then
                (let reduced_bad_habits = butlast bad_habits
                 in Inr (fst st @ [proposal ''bad_habits'' (PyList reduced_bad_habits)],
                         insert_adjustment (snd st) uid today
                           (PyStr (py_str (PyList bad_habits)))
                           (PyStr (py_str (PyList reduced_bad_habits)))
                           ''Reduce negative habits'' ''bad_habits''))
              else Inr st)
         | _ \<Rightarrow> Inr st))"

definition and_then :: "error + 'a \<Rightarrow> ('a \<Rightarrow> error + 'b) \<Rightarrow> error + 'b" where
  "and_then x f = (case x of Inl e \<Rightarrow> Inl e | Inr v \<Rightarrow> f v)"

definition run_rules ::
  "(pyval \<Rightarrow> string) \<Rightarrow> string set \<Rightarrow> int \<Rightarrow> int \<Rightarrow> routine \<Rightarrow> db \<Rightarrow> error + pyval list \<times> db" where
  "run_rules py_str existing uid today r cur =
     and_then (and_then (and_then
       (wake_up_rule existing uid today r ([], cur))
       (sleep_rule existing uid today r))
       (meal_rule existing uid today r))
       (bad_habits_rule py_str existing uid today r)"

definition no_routine_response :: pyval where
  "no_routine_response =
     PyDict [(''message'', PyStr (cross_mark @ '' No routine data found for this user''))]"

text \<open>
  The endpoint: the pending habit names are read once, before the rules; the inserts
  reach the stored data at the commit after the last rule. The early return and an
  exception both come before the commit.
\<close>

definition adjust_habits ::
  "(pyval \<Rightarrow> string) \<Rightarrow> bool \<Rightarrow> int \<Rightarrow> int \<Rightarrow> db \<Rightarrow> (error + pyval) \<times> db" where
  "adjust_habits py_str reachable today user_id d =
     (case get_db_connection reachable d of
        None \<Rightarrow> (Inr PyNone, d)
      | Some cur \<Rightarrow>
          (case fetch_latest_routine cur user_id of
             None \<Rightarrow> (Inr no_routine_response, d)
           | Some r \<Rightarrow>
               (case run_rules py_str (existing_habits cur user_id) user_id today r cur of
                  Inl e \<Rightarrow> (Inl e, d)
                | Inr (adjustments, cur') \<Rightarrow>
                    (Inr (PyDict [(''adjustments'', PyList adjustments)]), cur'))))"

section \<open>The reporters\<close>

subsection \<open>\<^verbatim>\<open>habit_progress\<close>\<close>

definition progress_entry :: "(pyval \<Rightarrow> string) \<Rightarrow> adjustment \<Rightarrow> pyval" where
  "progress_entry py_str a =
     PyDict [(''habit'', PyStr (a_habit a)),
             (''previous_value'', a_current_value a),
             (''new_value'', a_next_suggested_value a),
             (''date'', PyStr (py_str (PyDate (a_applied_on a))))]"

text \<open>The loop over the fetched rows; the three lists of \<^verbatim>\<open>progress_data\<close> are the state.\<close>

fun progress_loop ::
  "(pyval \<Rightarrow> string) \<Rightarrow> adjustment list \<Rightarrow> pyval list \<times> pyval list \<times> pyval list \<Rightarrow>
     pyval list \<times> pyval list \<times> pyval list" where
  "progress_loop py_str [] buckets = buckets"
| "progress_loop py_str (a # rest) (accepted, pending, rejected) =
     (let entry = progress_entry py_str a
      in if a_status a = ''accepted''
         then progress_loop py_str rest (accepted @ [entry], pending, rejected)
         else if a_status a = ''pending''
         then progress_loop py_str rest (accepted, pending @ [entry], rejected)
         else progress_loop py_str rest (accepted, pending, rejected @ [entry]))"

text \<open>\<^verbatim>\<open>ORDER BY applied_on ASC\<close>; rows of one date stay in stored order.\<close>

definition fetch_adjustments :: "db \<Rightarrow> int \<Rightarrow> adjustment list" where
  "fetch_adjustments cur uid =
     sort_key a_applied_on (filter (\<lambda>a. a_user_id a = uid) (habit_adjustments cur))"

definition habit_progress :: "(pyval \<Rightarrow> string) \<Rightarrow> bool \<Rightarrow> int \<Rightarrow> db \<Rightarrow> pyval" where
  "habit_progress py_str reachable user_id d =
     (case get_db_connection reachable d of
        None \<Rightarrow> PyNone
      | Some cur \<Rightarrow>
          (let adjustments = fetch_adjustments cur user_id
           in if adjustments = []
              then PyDict [(''message'', PyStr ''No habit progress data found.'')]
              else
                (case progress_loop py_str adjustments ([], [], []) of
                   (accepted, pending, rejected) \<Rightarrow>
                     PyDict [(''accepted'', PyList accepted),
                             (''pending'', PyList pending),
                             (''rejected'', PyList rejected)])))"

subsection \<open>\<^verbatim>\<open>habit_projections\<close>\<close>

record projection =
  start :: pyval
  current :: pyval
  trend :: "(int \<times> pyval) list"

text \<open>
  The dictionary \<^verbatim>\<open>projections\<close> keeps its keys in the order of their first insertion:
  an association list, new keys at the end.
\<close>

definition project_row :: "(string \<times> projection) list \<Rightarrow> history \<Rightarrow> (string \<times> projection) list" where
  "project_row projections row =
     (let projections1 =
            (case map_of projections (h_habit row) of
               None \<Rightarrow>
                 AList.update (h_habit row)
                   \<lparr>start = h_previous_value row, current = h_new_value row, trend = []\<rparr>
                   projections
             | Some _ \<Rightarrow> projections)
      in AList.map_entry (h_habit row)
           (\<lambda>p. p\<lparr>trend := trend p @ [(h_date_applied row, h_new_value row)],
                   current := h_new_value row\<rparr>)
           projections1)"

text \<open>
  A value inside an f-string: a string stands for itself, anything else goes through
  \<^verbatim>\<open>str\<close>.
\<close>

definition py_format :: "(pyval \<Rightarrow> string) \<Rightarrow> pyval \<Rightarrow> string" where
  "py_format py_str v = (case v of PyStr s \<Rightarrow> s | _ \<Rightarrow> py_str v)"

definition chart_mark :: string where
  "chart_mark = [CHR 0xF0, CHR 0x9F, CHR 0x93, CHR 0x88]"

definition future_insight :: "(pyval \<Rightarrow> string) \<Rightarrow> string \<Rightarrow> pyval \<Rightarrow> pyval \<Rightarrow> string" where
  "future_insight py_str hb s c =
     chart_mark @ '' '' @ ''If you continue, your '' @ hb @ '' could improve from '' @
     [CHR 0x27] @ py_format py_str s @ [CHR 0x27] @ '' to '' @
     [CHR 0x27] @ py_format py_str c @ [CHR 0x27] @ '' within a few months!''"

text \<open>\<^verbatim>\<open>WHERE user_id = %s AND status = 'accepted' ORDER BY date_applied ASC\<close>.\<close>

definition fetch_accepted_history :: "db \<Rightarrow> int \<Rightarrow> history list" where
  "fetch_accepted_history cur uid =
     sort_key h_date_applied
       (filter (\<lambda>h. h_user_id h = uid \<and> h_status h = ''accepted'') (habit_history cur))"

definition habit_projections :: "(pyval \<Rightarrow> string) \<Rightarrow> bool \<Rightarrow> int \<Rightarrow> db \<Rightarrow> pyval" where
  "habit_projections py_str reachable user_id d =
     (case get_db_connection reachable d of
        None \<Rightarrow> PyNone
      | Some cur \<Rightarrow>
          (let history = fetch_accepted_history cur user_id
           in if history = []
              then PyDict [(''message'', PyStr ''No habit progress found for this user.'')]
              else
                (let projections = foldl project_row [] history
                 in PyDict [(''habit_projections'',
                      PyList (map (\<lambda>(hb, data).
                                PyStr (future_insight py_str hb (start data) (current data)))
                              projections))])))"

section \<open>Observations used in the statements\<close>

text \<open>The number of pending rows of a user for a habit name.\<close>

definition pending_count :: "db \<Rightarrow> int \<Rightarrow> string \<Rightarrow> nat" where
  "pending_count d uid hb =
     length (filter (\<lambda>a. a_user_id a = uid \<and> a_status a = ''pending'' \<and> a_habit a = hb)
               (habit_adjustments d))"

text \<open>
  What one rule of the engine may do to the state: append proposals of its own habit
  name and pending rows of its own habit name for the user, nothing at all when the
  name is among the pending ones, and leave the other tables alone.
\<close>

definition rule_effect ::
  "string \<Rightarrow> string set \<Rightarrow> int \<Rightarrow> pyval list \<times> db \<Rightarrow> pyval list \<times> db \<Rightarrow> bool" where
  "rule_effect hb existing uid st st' =
     (\<exists>vs rows.
        fst st' = fst st @ map (proposal hb) vs \<and>
        habit_adjustments (snd st') = habit_adjustments (snd st) @ rows \<and>
        habit_history (snd st') = habit_history (snd st) \<and>
        daily_routines (snd st') = daily_routines (snd st) \<and>
        list_all (\<lambda>a. a_habit a = hb \<and> a_user_id a = uid \<and> a_status a = ''pending'') rows \<and>
        length vs \<le> 1 \<and>
        (hb \<in> existing \<longrightarrow> vs = [] \<and> rows = []) \<and>
        (hb \<noteq> ''meal_times'' \<longrightarrow> length rows = length vs))"

text \<open>The elements of a list in the order of their first occurrence, each once.\<close>

definition first_seen :: "'a list \<Rightarrow> 'a list" where
  "first_seen xs = rev (remdups (rev xs))"

text \<open>
  What the dictionary \<^verbatim>\<open>projections\<close> holds for one habit after the loop over the
  fetched rows: the previous value of the habit's first row, the new value of its last
  row, and the dated new values of all its rows.
\<close>

definition summary :: "history list \<Rightarrow> string \<Rightarrow> string \<times> projection" where
  "summary rows hb =
     (hb, \<lparr>start = h_previous_value (hd (filter (\<lambda>r. h_habit r = hb) rows)),
           current = h_new_value (last (filter (\<lambda>r. h_habit r = hb) rows)),
           trend = map (\<lambda>r. (h_date_applied r, h_new_value r))
                     (filter (\<lambda>r. h_habit r = hb) rows)\<rparr>)"

section \<open>Example data\<close>

text \<open>A stand-in for Python's \<^verbatim>\<open>str\<close> in the examples.\<close>

definition sample_str :: "pyval \<Rightarrow> string" where
  "sample_str v = (case v of PyStr s \<Rightarrow> s | _ \<Rightarrow> ''?'')"

definition example_adjustment :: adjustment where
  "example_adjustment =
     \<lparr>a_adjustment_id = 7, a_user_id = 1, a_applied_on = 100,
      a_current_value = PyTime \<lparr>hour = 7, minute = 30, second = 0\<rparr>,
      a_next_suggested_value = PyStr ''06:30'', a_reason = ''Gradual wake-up shift'',
      a_status = ''pending'', a_habit = ''wake_up_time''\<rparr>"

definition example_db :: db where
  "example_db = \<lparr>habit_adjustments = [example_adjustment], habit_history = [],
     daily_routines = [], adjustment_seq = 8\<rparr>"

definition example_routine :: routine where
  "example_routine =
     \<lparr>r_user_id = 1, r_date = 100,
      r_wake_up_time = PyTime \<lparr>hour = 7, minute = 15, second = 0\<rparr>,
      r_sleep_time = PyTime \<lparr>hour = 3, minute = 45, second = 0\<rparr>,
      r_meal_times = PyList [PyStr ''07:00'', PyStr ''12:30'', PyStr ''19:00''],
      r_energy_level = PyInt 5, r_stress_level = PyInt 6,
      r_bad_habits = PyList [PyStr ''coffee'', PyStr ''sugar'', PyStr ''lateNight''],
      r_workout = PyStr ''15-minute walk''\<rparr>"

definition routine_db :: db where
  "routine_db = \<lparr>habit_adjustments = [], habit_history = [],
     daily_routines = [example_routine], adjustment_seq = 1\<rparr>"

definition pending_row :: "int \<Rightarrow> pyval \<Rightarrow> pyval \<Rightarrow> string \<Rightarrow> string \<Rightarrow> adjustment" where
  "pending_row i cv nv rsn hb =
     \<lparr>a_adjustment_id = i, a_user_id = 1, a_applied_on = 101, a_current_value = cv,
      a_next_suggested_value = nv, a_reason = rsn, a_status = ''pending'', a_habit = hb\<rparr>"

definition routine_proposals :: "pyval list" where
  "routine_proposals =
     [proposal ''wake_up_time'' (PyStr ''06:15''),
      proposal ''sleep_time'' (PyStr ''22:45''),
      proposal ''meal_times'' (PyList [PyStr ''06:00'', PyStr ''11:30'', PyStr ''18:00'']),
      proposal ''bad_habits'' (PyList [PyStr ''coffee'', PyStr ''sugar''])]"

definition routine_db_after :: db where
  "routine_db_after =
     \<lparr>habit_adjustments =
        [pending_row 1 (PyTime \<lparr>hour = 7, minute = 15, second = 0\<rparr>) (PyStr ''06:15'')
           ''Gradual wake-up shift'' ''wake_up_time'',
         pending_row 2 (PyTime \<lparr>hour = 3, minute = 45, second = 0\<rparr>) (PyStr ''22:45'')
           ''Improve sleep quality'' ''sleep_time'',
         pending_row 3 (PyStr ''07:00'') (PyStr ''06:00'') ''Optimize meal timing'' ''meal_times'',
         pending_row 4 (PyStr ''12:30'') (PyStr ''11:30'') ''Optimize meal timing'' ''meal_times'',
         pending_row 5 (PyStr ''19:00'') (PyStr ''18:00'') ''Optimize meal timing'' ''meal_times'',
         pending_row 6 (PyStr ''?'') (PyStr ''?'') ''Reduce negative habits'' ''bad_habits''],
      habit_history = [], daily_routines = [example_routine], adjustment_seq = 7\<rparr>"

definition pending_db :: db where
  "pending_db = \<lparr>habit_adjustments = [example_adjustment], habit_history = [],
     daily_routines = [example_routine], adjustment_seq = 8\<rparr>"

definition early_routine :: routine where
  "early_routine =
     \<lparr>r_user_id = 2, r_date = 100,
      r_wake_up_time = PyTime \<lparr>hour = 9, minute = 0, second = 0\<rparr>,
      r_sleep_time = PyTime \<lparr>hour = 1, minute = 59, second = 0\<rparr>,
      r_meal_times = PyNone,
      r_energy_level = PyInt 5, r_stress_level = PyInt 6,
      r_bad_habits = PyList [PyStr ''coffee''],
      r_workout = PyNone\<rparr>"

definition early_db :: db where
  "early_db = \<lparr>habit_adjustments = [], habit_history = [],
     daily_routines = [early_routine], adjustment_seq = 1\<rparr>"

definition no_meals_routine :: routine where
  "no_meals_routine =
     \<lparr>r_user_id = 3, r_date = 100,
      r_wake_up_time = PyTime \<lparr>hour = 6, minute = 30, second = 0\<rparr>,
      r_sleep_time = PyTime \<lparr>hour = 0, minute = 30, second = 0\<rparr>,
      r_meal_times = PyList [],
      r_energy_level = PyInt 7, r_stress_level = PyInt 2,
      r_bad_habits = PyList [],
      r_workout = PyNone\<rparr>"

definition no_meals_db :: db where
  "no_meals_db = \<lparr>habit_adjustments = [], habit_history = [],
     daily_routines = [no_meals_routine], adjustment_seq = 1\<rparr>"

definition progress_db :: db where
  "progress_db =
     \<lparr>habit_adjustments =
        [pending_row 1 (PyStr ''07:15'') (PyStr ''06:15'') ''Gradual wake-up shift'' ''wake_up_time'',
         (pending_row 2 (PyStr ''03:45'') (PyStr ''22:45'') ''Improve sleep quality'' ''sleep_time'')
           \<lparr>a_status := ''accepted''\<rparr>,
         (pending_row 3 (PyStr ''07:00'') (PyStr ''06:00'') ''Optimize meal timing'' ''meal_times'')
           \<lparr>a_status := ''rejected''\<rparr>,
         (pending_row 4 (PyStr ''12:30'') (PyStr ''11:30'') ''Optimize meal timing'' ''meal_times'')
           \<lparr>a_status := ''archived''\<rparr>],
      habit_history = [], daily_routines = [], adjustment_seq = 5\<rparr>"

definition history_db :: db where
  "history_db =
     \<lparr>habit_adjustments = [],
      habit_history =
        [\<lparr>h_user_id = 1, h_habit = ''wake_up_time'', h_previous_value = PyStr ''06:15'',
          h_new_value = PyStr ''06:00'', h_status = ''accepted'', h_date_applied = 105\<rparr>,
         \<lparr>h_user_id = 1, h_habit = ''wake_up_time'', h_previous_value = PyStr ''07:15'',
          h_new_value = PyStr ''06:15'', h_status = ''accepted'', h_date_applied = 101\<rparr>,
         \<lparr>h_user_id = 1, h_habit = ''sleep_time'', h_previous_value = PyStr ''03:45'',
          h_new_value = PyStr ''22:45'', h_status = ''rejected'', h_date_applied = 102\<rparr>,
         \<lparr>h_user_id = 1, h_habit = ''bad_habits'', h_previous_value = PyStr ''[coffee, sugar]'',
          h_new_value = PyStr ''[coffee]'', h_status = ''accepted'', h_date_applied = 103\<rparr>],
      daily_routines = [], adjustment_seq = 1\<rparr>"

section \<open>Properties of the built-ins\<close>

lemma of_char_digit_char: "k < 10 \<Longrightarrow> (of_char (digit_char k) :: nat) = 48 + k"
  by (simp add: digit_char_def)

lemma is_digit_digit_char: "k < 10 \<Longrightarrow> is_digit (digit_char k)"
  by (simp add: is_digit_def of_char_digit_char)

lemma digit_val_digit_char: "k < 10 \<Longrightarrow> digit_val (digit_char k) = k"
  by (simp add: digit_val_def of_char_digit_char)

lemma digits_not_empty: "digits n \<noteq> []"
  by (subst digits.simps) simp

lemma digits_all_digit: "list_all is_digit (digits n)"
proof (induction n rule: digits.induct)
  case (1 n)
  show ?case
    by (subst digits.simps) (use 1 in \<open>simp add: is_digit_digit_char\<close>)
qed

lemma digits_value: "foldl (\<lambda>a c. 10 * a + digit_val c) 0 (digits n) = n"
proof (induction n rule: digits.induct)
  case (1 n)
  show ?case
    by (subst digits.simps) (use 1 in \<open>simp add: digit_val_digit_char\<close>)
qed

lemma py_digits_all:
  "list_all is_digit ds \<Longrightarrow> ds \<noteq> [] \<Longrightarrow>
     py_digits need acc ds = Some (foldl (\<lambda>a c. 10 * a + digit_val c) acc ds)"
proof (induction ds arbitrary: need acc)
  case Nil
  then show ?case by simp
next
  case (Cons c cs)
  from Cons.prems have c: "is_digit c" and cs: "list_all is_digit cs"
    by simp_all
  have step: "py_digits need acc (c # cs) = py_digits False (10 * acc + digit_val c) cs"
    using c by simp
  show ?case
  proof (cases "cs = []")
    case True
    with step show ?thesis by simp
  next
    case False
    from Cons.IH [OF cs False, of False "10 * acc + digit_val c"] step
    show ?thesis by simp
  qed
qed

lemma py_digits_digits: "py_digits True 0 (digits n) = Some n"
  by (simp add: py_digits_all digits_all_digit digits_not_empty digits_value)

lemma is_digit_not_special:
  "is_digit c \<Longrightarrow> \<not> is_space c \<and> c \<noteq> CHR ''-'' \<and> c \<noteq> CHR ''+'' \<and> c \<noteq> CHR '':''"
  by (auto simp: is_digit_def is_space_def)

lemma strip_id:
  "s \<noteq> [] \<Longrightarrow> \<not> is_space (hd s) \<Longrightarrow> \<not> is_space (last s) \<Longrightarrow> strip s = s"
proof -
  assume a: "s \<noteq> []" "\<not> is_space (hd s)" "\<not> is_space (last s)"
  then have 1: "dropWhile is_space s = s"
    by (cases s) auto
  from a have "dropWhile is_space (rev s) = rev s"
    by (cases "rev s") (auto simp: last_rev [symmetric] hd_rev)
  with 1 show ?thesis by (simp add: strip_def)
qed

lemma py_int_digits:
  assumes "list_all is_digit ds" and "ds \<noteq> []"
  shows "py_int ds = Some (int (foldl (\<lambda>a c. 10 * a + digit_val c) 0 ds))"
    and "py_int (CHR ''-'' # ds) = Some (- int (foldl (\<lambda>a c. 10 * a + digit_val c) 0 ds))"
proof -
  from assms obtain c cs where ds: "ds = c # cs" by (cases ds) auto
  from assms have h: "is_digit (hd ds)" and l: "is_digit (last ds)"
    by (auto simp: list_all_iff)
  have s1: "strip ds = ds"
    using assms(2) h l by (intro strip_id) (auto dest: is_digit_not_special)
  have s2: "strip (CHR ''-'' # ds) = CHR ''-'' # ds"
    using assms(2) l by (intro strip_id) (auto dest: is_digit_not_special simp: is_space_def)
  from h ds have c: "c \<noteq> CHR ''-''" "c \<noteq> CHR ''+''"
    by (auto dest: is_digit_not_special)
  show "py_int ds = Some (int (foldl (\<lambda>a c. 10 * a + digit_val c) 0 ds))"
    unfolding py_int_def s1
    using c py_digits_all [OF assms, of True 0] by (simp add: ds)
  show "py_int (CHR ''-'' # ds) = Some (- int (foldl (\<lambda>a c. 10 * a + digit_val c) 0 ds))"
    unfolding py_int_def s2
    using py_digits_all [OF assms, of True 0] by simp
qed

text \<open>The shape of a formatted integer: digits, with a minus sign in front when negative.\<close>

lemma fmt02d_shape:
  obtains ds where "list_all is_digit ds" "ds \<noteq> []"
    "fmt02d n = ds \<or> fmt02d n = CHR ''-'' # ds" "py_int (fmt02d n) = Some n"
proof (cases "n < 0")
  case True
  let ?ds = "digits (nat (- n))"
  have "py_int (CHR ''-'' # ?ds) = Some n"
    using True by (simp add: py_int_digits(2) digits_all_digit digits_not_empty digits_value)
  with True show ?thesis
    by (intro that [of ?ds]) (simp_all add: fmt02d_def fmt_d_def digits_all_digit digits_not_empty)
next
  case False
  show ?thesis
  proof (cases "n < 10")
    case True
    let ?ds = "CHR ''0'' # digits (nat n)"
    have 0: "is_digit CHR ''0''" "digit_val CHR ''0'' = 0"
      by (simp_all add: is_digit_def digit_val_def)
    have d: "list_all is_digit ?ds"
      using 0 by (simp add: digits_all_digit)
    have "py_int ?ds = Some n"
      using False 0 by (simp add: py_int_digits(1) [OF d] digits_value)
    with True False d show ?thesis
      by (intro that [of ?ds]) (simp_all add: fmt02d_def)
  next
    case ge: False
    let ?ds = "digits (nat n)"
    have "py_int ?ds = Some n"
      using False by (simp add: py_int_digits(1) digits_all_digit digits_not_empty digits_value)
    with False ge show ?thesis
      by (intro that [of ?ds]) (simp_all add: fmt02d_def fmt_d_def digits_all_digit digits_not_empty)
  qed
qed

lemma fmt02d_no_colon: "CHR '':'' \<notin> set (fmt02d n)"
proof -
  obtain ds where d: "list_all is_digit ds"
    and f: "fmt02d n = ds \<or> fmt02d n = CHR ''-'' # ds"
    by (rule fmt02d_shape)
  have "\<not> is_digit CHR '':''"
    by (simp add: is_digit_def)
  with d have "CHR '':'' \<notin> set ds"
    by (metis list_all_iff)
  with f show ?thesis
    by (elim disjE) simp_all
qed

lemma split_colon_no_colon: "CHR '':'' \<notin> set b \<Longrightarrow> split_colon b = [b]"
  by (induction b) auto

lemma split_colon_append:
  "CHR '':'' \<notin> set a \<Longrightarrow> split_colon (a @ CHR '':'' # b) = a # split_colon b"
proof (induction a)
  case Nil
  show ?case by simp
next
  case (Cons c a)
  from Cons.prems have c: "c \<noteq> CHR '':''" and a: "CHR '':'' \<notin> set a"
    by auto
  from Cons.IH [OF a] c show ?case by simp
qed

lemma py_int_fmt02d: "py_int (fmt02d n) = Some n"
proof -
  obtain ds where "list_all is_digit ds" "py_int (fmt02d n) = Some n"
    by (rule fmt02d_shape)
  then show ?thesis by simp
qed

text \<open>Reading back a time the engine has written gives its hour and minute.\<close>

lemma parse_hm_fmt: "parse_hm (fmt02d h @ '':'' @ fmt02d m) = Inr (h, m)"
proof -
  have 1: "split_colon (fmt02d h @ CHR '':'' # fmt02d m) = fmt02d h # split_colon (fmt02d m)"
    by (rule split_colon_append [OF fmt02d_no_colon])
  have 2: "split_colon (fmt02d m) = [fmt02d m]"
    by (rule split_colon_no_colon [OF fmt02d_no_colon])
  have 3: "fmt02d h @ '':'' @ fmt02d m = fmt02d h @ CHR '':'' # fmt02d m"
    by simp
  show ?thesis
    unfolding parse_hm_def 3 1 2 by (simp add: py_int_fmt02d)
qed

section \<open>Properties of the lifecycle manager\<close>


text \<open>
  C4. \<^verbatim>\<open>update_habit\<close> raises exactly when the requested status is neither
  \<^verbatim>\<open>"accepted"\<close> nor \<^verbatim>\<open>"rejected"\<close>; what it raises then is the HTTP 400 exception, and
  the stored data are the ones it started from: no history row written, no adjustment
  deleted. This holds whether or not the store can be reached, since the check comes
  before the connection.
\<close>

theorem update_habit_invalid_status:
  "(isl (fst (update_habit reachable today adjustment_id status d)))
      = (status \<noteq> ''accepted'' \<and> status \<noteq> ''rejected'')
   \<and> (status \<noteq> ''accepted'' \<and> status \<noteq> ''rejected'' \<longrightarrow>
        update_habit reachable today adjustment_id status d
          = (Inl (HTTPException 400 invalid_status_detail), d))"
  by (auto simp: update_habit_def Let_def split: option.splits)

theorem update_habit_invalid_status_witness:
  "isl (fst (update_habit True 101 7 ''maybe'' example_db))
   \<and> update_habit True 101 7 ''maybe'' example_db
        = (Inl (HTTPException 400 invalid_status_detail), example_db)
   \<and> \<not> isl (fst (update_habit True 101 7 ''accepted'' example_db))"
  using update_habit_invalid_status [of True 101 7 "''maybe''" example_db]
    update_habit_invalid_status [of True 101 7 "''accepted''" example_db]
  by simp



section \<open>Properties of the rule engine\<close>

subsection \<open>The outcomes of a call\<close>

lemma adjust_habits_unreachable:
  "adjust_habits py_str False today uid d = (Inr PyNone, d)"
  by (simp add: adjust_habits_def get_db_connection_def)

lemma adjust_habits_no_routine:
  "fetch_latest_routine d uid = None \<Longrightarrow>
     adjust_habits py_str True today uid d = (Inr no_routine_response, d)"
  by (simp add: adjust_habits_def get_db_connection_def)

lemma adjust_habits_raises:
  "fetch_latest_routine d uid = Some r \<Longrightarrow>
   run_rules py_str (existing_habits d uid) uid today r d = Inl e \<Longrightarrow>
     adjust_habits py_str True today uid d = (Inl e, d)"
  by (simp add: adjust_habits_def get_db_connection_def)

lemma adjust_habits_returns:
  "fetch_latest_routine d uid = Some r \<Longrightarrow>
   run_rules py_str (existing_habits d uid) uid today r d = Inr (ps, d') \<Longrightarrow>
     adjust_habits py_str True today uid d = (Inr (PyDict [(''adjustments'', PyList ps)]), d')"
  by (simp add: adjust_habits_def get_db_connection_def)

lemma adjust_habits_cases:
  obtains (same) "snd (adjust_habits py_str reachable today uid d) = d"
      "\<And>ps. fst (adjust_habits py_str reachable today uid d)
         \<noteq> Inr (PyDict [(''adjustments'', PyList ps)])"
  | (ran) r ps d' where "reachable" "fetch_latest_routine d uid = Some r"
      "run_rules py_str (existing_habits d uid) uid today r d = Inr (ps, d')"
      "adjust_habits py_str reachable today uid d
         = (Inr (PyDict [(''adjustments'', PyList ps)]), d')"
proof (cases reachable)
  case False
  then show ?thesis
    using same by (simp add: adjust_habits_unreachable)
next
  case True
  show ?thesis
  proof (cases "fetch_latest_routine d uid")
    case None
    then show ?thesis
      using same True by (simp add: adjust_habits_no_routine no_routine_response_def)
  next
    case (Some r)
    show ?thesis
    proof (cases "run_rules py_str (existing_habits d uid) uid today r d")
      case (Inl e)
      then show ?thesis
        using same True Some by (simp add: adjust_habits_raises)
    next
      case (Inr st)
      then show ?thesis
        using ran [of r "fst st" "snd st"] True Some
        by (simp add: adjust_habits_returns)
    qed
  qed
qed

lemma latest_None: "(latest rs = None) = (rs = [])"
  by (cases rs) (auto split: option.splits)

text \<open>The row fetched is a stored row of the greatest date.\<close>

lemma latest_greatest:
  "latest rs = Some r \<Longrightarrow> r \<in> set rs \<and> (\<forall>r'\<in>set rs. r_date r' \<le> r_date r)"
proof (induction rs arbitrary: r)
  case Nil
  then show ?case by simp
next
  case (Cons a rs)
  show ?case
  proof (cases "latest rs")
    case None
    with Cons.prems show ?thesis by (simp add: latest_None)
  next
    case (Some b)
    from Cons.IH [OF Some] have b: "b \<in> set rs" "\<forall>r'\<in>set rs. r_date r' \<le> r_date b"
      by simp_all
    show ?thesis
    proof (cases "r_date a < r_date b")
      case True
      with Some Cons.prems have "r = b" by simp
      with b True show ?thesis by auto
    next
      case False
      with Some Cons.prems have "r = a" by simp
      with b False show ?thesis by auto
    qed
  qed
qed

lemma fetch_latest_routine_greatest:
  "fetch_latest_routine d uid = Some r \<Longrightarrow>
     r \<in> set (daily_routines d) \<and> r_user_id r = uid \<and>
     (\<forall>r'\<in>set (daily_routines d). r_user_id r' = uid \<longrightarrow> r_date r' \<le> r_date r)"
  using latest_greatest [of "filter (\<lambda>r. r_user_id r = uid) (daily_routines d)" r]
  by (simp add: fetch_latest_routine_def)

lemma fetch_latest_routine_None:
  "(fetch_latest_routine d uid = None) = (\<forall>r\<in>set (daily_routines d). r_user_id r \<noteq> uid)"
  by (simp add: fetch_latest_routine_def latest_None filter_empty_conv)

text \<open>
  C8. For a user with no stored routine, a call of \<^verbatim>\<open>adjust_habits\<close> on an open
  connection answers with the no-data message and leaves the stored data alone; the
  answer is that message only for such a user, and the message differs from every
  answer that carries a list of proposals, the empty list included.
\<close>

theorem adjust_habits_no_data:
  "(fst (adjust_habits py_str True today uid d) = Inr no_routine_response)
      = (\<forall>r\<in>set (daily_routines d). r_user_id r \<noteq> uid)
   \<and> ((\<forall>r\<in>set (daily_routines d). r_user_id r \<noteq> uid) \<longrightarrow>
        adjust_habits py_str True today uid d = (Inr no_routine_response, d))
   \<and> no_routine_response \<noteq> PyDict [(''adjustments'', PyList ps)]"
proof -
  have a: "adjust_habits py_str True today uid d = (Inr no_routine_response, d)"
    if "\<forall>r\<in>set (daily_routines d). r_user_id r \<noteq> uid"
    using that by (simp add: adjust_habits_no_routine fetch_latest_routine_None)
  have b: "fst (adjust_habits py_str True today uid d) \<noteq> Inr no_routine_response"
    if "\<not> (\<forall>r\<in>set (daily_routines d). r_user_id r \<noteq> uid)"
  proof -
    from that obtain r where r: "fetch_latest_routine d uid = Some r"
      by (cases "fetch_latest_routine d uid") (auto simp: fetch_latest_routine_None)
    show ?thesis
    proof (cases "run_rules py_str (existing_habits d uid) uid today r d")
      case (Inl e)
      with r show ?thesis by (simp add: adjust_habits_raises)
    next
      case (Inr st)
      with r adjust_habits_returns [of d uid r py_str today "fst st" "snd st"]
      show ?thesis by (simp add: no_routine_response_def)
    qed
  qed
  have c: "no_routine_response \<noteq> PyDict [(''adjustments'', PyList ps)]"
    by (simp add: no_routine_response_def)
  from a b c show ?thesis by (metis fst_conv)
qed

theorem adjust_habits_no_data_witness:
  "adjust_habits sample_str True 101 2 routine_db = (Inr no_routine_response, routine_db)
   \<and> fst (adjust_habits sample_str True 101 1 routine_db) \<noteq> Inr no_routine_response"
  using adjust_habits_no_data [of sample_str 101 2 routine_db]
    adjust_habits_no_data [of sample_str 101 1 routine_db]
  by (simp add: routine_db_def example_routine_def)

subsection \<open>What each rule does\<close>

lemma proposal_eq [simp]: "(proposal h v = proposal h' v') = (h = h' \<and> v = v')"
  by (simp add: proposal_def)

lemma insert_adjustment_simps [simp]:
  "habit_adjustments (insert_adjustment cur uid today cv nv rsn hb) =
     habit_adjustments cur @
       [\<lparr>a_adjustment_id = adjustment_seq cur, a_user_id = uid, a_applied_on = today,
         a_current_value = cv, a_next_suggested_value = nv, a_reason = rsn,
         a_status = ''pending'', a_habit = hb\<rparr>]"
  "habit_history (insert_adjustment cur uid today cv nv rsn hb) = habit_history cur"
  "daily_routines (insert_adjustment cur uid today cv nv rsn hb) = daily_routines cur"
  "adjustment_seq (insert_adjustment cur uid today cv nv rsn hb) = adjustment_seq cur + 1"
  by (simp_all add: insert_adjustment_def)

lemma rule_effect_refl: "rule_effect hb existing uid st st"
  unfolding rule_effect_def
  by (rule exI [of _ "[]"], rule exI [of _ "[]"]) simp

lemma rule_effect_fire:
  assumes "hb \<notin> existing"
  shows "rule_effect hb existing uid st
           (fst st @ [proposal hb v], insert_adjustment (snd st) uid today cv nv rsn hb)"
  unfolding rule_effect_def
  by (rule exI [of _ "[v]"],
      rule exI [of _ "[\<lparr>a_adjustment_id = adjustment_seq (snd st), a_user_id = uid,
             a_applied_on = today, a_current_value = cv, a_next_suggested_value = nv,
             a_reason = rsn, a_status = ''pending'', a_habit = hb\<rparr>]"])
     (simp add: assms)

lemma wake_up_rule_effect:
  "wake_up_rule existing uid today r st = Inr st' \<Longrightarrow>
     rule_effect ''wake_up_time'' existing uid st st'"
  by (auto simp: wake_up_rule_def Let_def rule_effect_refl rule_effect_fire
      split: if_splits sum.splits bool.splits pyval.splits)

lemma sleep_rule_effect:
  "sleep_rule existing uid today r st = Inr st' \<Longrightarrow>
     rule_effect ''sleep_time'' existing uid st st'"
  by (auto simp: sleep_rule_def Let_def rule_effect_refl rule_effect_fire
      split: if_splits sum.splits bool.splits pyval.splits)

lemma bad_habits_rule_effect:
  "bad_habits_rule py_str existing uid today r st = Inr st' \<Longrightarrow>
     rule_effect ''bad_habits'' existing uid st st'"
  by (auto simp: bad_habits_rule_def Let_def rule_effect_refl rule_effect_fire
      split: if_splits pyval.splits)

lemma meal_loop_rows:
  "meal_loop uid today ts acc = Inr acc' \<Longrightarrow>
     \<exists>rows. habit_adjustments (snd acc') = habit_adjustments (snd acc) @ rows \<and>
            habit_history (snd acc') = habit_history (snd acc) \<and>
            daily_routines (snd acc') = daily_routines (snd acc) \<and>
            length rows = length ts \<and>
            length (fst acc') = length (fst acc) + length ts \<and>
            list_all (\<lambda>a. a_habit a = ''meal_times'' \<and> a_user_id a = uid \<and>
                          a_status a = ''pending'' \<and> a_reason a = ''Optimize meal timing'') rows"
proof (induction ts arbitrary: acc)
  case Nil
  then show ?case by simp
next
  case (Cons t ts)
  from Cons.prems obtain s h m where t: "t = PyStr s" and p: "parse_hm s = Inr (h, m)"
    and rest: "meal_loop uid today ts
                 (fst acc @ [PyStr (fmt02d (max 6 (h - 1)) @ '':'' @ fmt02d m)],
                  insert_adjustment (snd acc) uid today t
                    (PyStr (fmt02d (max 6 (h - 1)) @ '':'' @ fmt02d m))
                    ''Optimize meal timing'' ''meal_times'') = Inr acc'"
    by (auto simp: Let_def split: pyval.splits sum.splits)
  from Cons.IH [OF rest] obtain rows where
    rows: "habit_adjustments (snd acc') =
             (habit_adjustments (snd acc) @
               [\<lparr>a_adjustment_id = adjustment_seq (snd acc), a_user_id = uid, a_applied_on = today,
                 a_current_value = t,
                 a_next_suggested_value = PyStr (fmt02d (max 6 (h - 1)) @ '':'' @ fmt02d m),
                 a_reason = ''Optimize meal timing'', a_status = ''pending'',
                 a_habit = ''meal_times''\<rparr>]) @ rows"
      "habit_history (snd acc') = habit_history (snd acc)"
      "daily_routines (snd acc') = daily_routines (snd acc)"
      "length rows = length ts"
      "length (fst acc') = length (fst acc) + 1 + length ts"
      "list_all (\<lambda>a. a_habit a = ''meal_times'' \<and> a_user_id a = uid \<and>
                          a_status a = ''pending'' \<and> a_reason a = ''Optimize meal timing'') rows"
    by auto
  show ?case
    by (rule exI [of _ "\<lparr>a_adjustment_id = adjustment_seq (snd acc), a_user_id = uid,
                 a_applied_on = today, a_current_value = t,
                 a_next_suggested_value = PyStr (fmt02d (max 6 (h - 1)) @ '':'' @ fmt02d m),
                 a_reason = ''Optimize meal timing'', a_status = ''pending'',
                 a_habit = ''meal_times''\<rparr> # rows"]) (simp add: rows)
qed

lemma meal_rule_effect:
  assumes "meal_rule existing uid today r st = Inr st'"
  shows "rule_effect ''meal_times'' existing uid st st'"
proof (cases "st' = st")
  case True
  then show ?thesis by (simp add: rule_effect_refl)
next
  case False
  with assms obtain ts new_meal_times cur where
    ex: "''meal_times'' \<notin> existing" and
    loop: "meal_loop uid today ts ([], snd st) = Inr (new_meal_times, cur)" and
    st': "st' = (fst st @ [proposal ''meal_times'' (PyList new_meal_times)], cur)"
    by (auto simp: meal_rule_def split: if_splits pyval.splits sum.splits)
  from meal_loop_rows [OF loop] obtain rows where
    "habit_adjustments cur = habit_adjustments (snd st) @ rows"
    "habit_history cur = habit_history (snd st)"
    "daily_routines cur = daily_routines (snd st)"
    "list_all (\<lambda>a. a_habit a = ''meal_times'' \<and> a_user_id a = uid \<and>
                          a_status a = ''pending'' \<and> a_reason a = ''Optimize meal timing'') rows"
    by auto
  then show ?thesis
    unfolding rule_effect_def st'
    by (intro exI [of _ "[PyList new_meal_times]"] exI [of _ rows])
       (simp add: ex list_all_iff)
qed

lemma wake_up_rule_skip:
  "r_sleep_time r = PyTime s \<Longrightarrow> hour s \<le> 1 \<Longrightarrow> wake_up_rule existing uid today r st = Inr st"
  by (simp add: wake_up_rule_def sleeps_late_def)

lemma sleep_rule_skip:
  "r_sleep_time r = PyTime s \<Longrightarrow> hour s \<le> 1 \<Longrightarrow> sleep_rule existing uid today r st = Inr st"
  by (simp add: sleep_rule_def sleeps_late_def)

lemma wake_up_rule_fire:
  "''wake_up_time'' \<notin> existing \<Longrightarrow> r_sleep_time r = PyTime s \<Longrightarrow> 1 < hour s \<Longrightarrow>
   r_wake_up_time r = PyTime w \<Longrightarrow>
     wake_up_rule existing uid today r st =
       Inr (fst st @ [proposal ''wake_up_time''
                        (PyStr (fmt02d (max 6 (hour w - 1)) @ '':'' @ fmt02d (minute w)))],
            insert_adjustment (snd st) uid today (PyTime w)
              (PyStr (fmt02d (max 6 (hour w - 1)) @ '':'' @ fmt02d (minute w)))
              ''Gradual wake-up shift'' ''wake_up_time'')"
  by (simp add: wake_up_rule_def sleeps_late_def Let_def)

lemma sleep_rule_fire:
  "''sleep_time'' \<notin> existing \<Longrightarrow> r_sleep_time r = PyTime s \<Longrightarrow> 1 < hour s \<Longrightarrow>
     sleep_rule existing uid today r st =
       Inr (fst st @ [proposal ''sleep_time''
                        (PyStr (fmt02d (max 22 (hour s - 1)) @ '':'' @ fmt02d (minute s)))],
            insert_adjustment (snd st) uid today (PyTime s)
              (PyStr (fmt02d (max 22 (hour s - 1)) @ '':'' @ fmt02d (minute s)))
              ''Improve sleep quality'' ''sleep_time'')"
  by (simp add: sleep_rule_def sleeps_late_def Let_def)

lemma bad_habits_rule_eq:
  "bad_habits_rule py_str existing uid today r st =
     (if ''bad_habits'' \<notin> existing \<and> (\<exists>xs. r_bad_habits r = PyList xs \<and> xs \<noteq> [])
      then Inr (fst st @ [proposal ''bad_habits''
                            (PyList (butlast (case r_bad_habits r of PyList xs \<Rightarrow> xs | _ \<Rightarrow> [])))],
                insert_adjustment (snd st) uid today
                  (PyStr (py_str (r_bad_habits r)))
                  (PyStr (py_str (PyList (butlast (case r_bad_habits r of PyList xs \<Rightarrow> xs | _ \<Rightarrow> [])))))
                  ''Reduce negative habits'' ''bad_habits'')
      else Inr st)"
  by (auto simp: bad_habits_rule_def Let_def split: pyval.splits)

lemma run_rules_Inr:
  assumes "run_rules py_str existing uid today r cur = Inr st"
  obtains s1 s2 s3 where
    "wake_up_rule existing uid today r ([], cur) = Inr s1"
    "sleep_rule existing uid today r s1 = Inr s2"
    "meal_rule existing uid today r s2 = Inr s3"
    "bad_habits_rule py_str existing uid today r s3 = Inr st"
  using assms
  by (auto simp: run_rules_def and_then_def split: sum.splits)

text \<open>The proposals after all four rules, and the rows they store, rule by rule.\<close>

lemma run_rules_shape:
  assumes "run_rules py_str existing uid today r d = Inr (ps, d')"
  obtains s1 s2 s3 v1 v2 v3 v4 R1 R2 R3 R4 where
    "wake_up_rule existing uid today r ([], d) = Inr s1"
    "sleep_rule existing uid today r s1 = Inr s2"
    "meal_rule existing uid today r s2 = Inr s3"
    "bad_habits_rule py_str existing uid today r s3 = Inr (ps, d')"
    "fst s1 = map (proposal ''wake_up_time'') v1"
    "fst s2 = fst s1 @ map (proposal ''sleep_time'') v2"
    "fst s3 = fst s2 @ map (proposal ''meal_times'') v3"
    "ps = fst s3 @ map (proposal ''bad_habits'') v4"
    "habit_adjustments (snd s1) = habit_adjustments d @ R1"
    "habit_adjustments (snd s2) = habit_adjustments (snd s1) @ R2"
    "habit_adjustments (snd s3) = habit_adjustments (snd s2) @ R3"
    "habit_adjustments d' = habit_adjustments (snd s3) @ R4"
    "list_all (\<lambda>a. a_habit a = ''wake_up_time'') R1"
    "list_all (\<lambda>a. a_habit a = ''sleep_time'') R2"
    "list_all (\<lambda>a. a_habit a = ''meal_times'') R3"
    "list_all (\<lambda>a. a_habit a = ''bad_habits'') R4"
proof -
  from assms obtain s1 s2 s3 where
    w: "wake_up_rule existing uid today r ([], d) = Inr s1" and
    s: "sleep_rule existing uid today r s1 = Inr s2" and
    m: "meal_rule existing uid today r s2 = Inr s3" and
    b: "bad_habits_rule py_str existing uid today r s3 = Inr (ps, d')"
    by (rule run_rules_Inr)
  from wake_up_rule_effect [OF w] obtain v1 R1 where
    1: "fst s1 = map (proposal ''wake_up_time'') v1"
       "habit_adjustments (snd s1) = habit_adjustments d @ R1"
       "list_all (\<lambda>a. a_habit a = ''wake_up_time'') R1"
    unfolding rule_effect_def by (auto simp: list_all_iff)
  from sleep_rule_effect [OF s] obtain v2 R2 where
    2: "fst s2 = fst s1 @ map (proposal ''sleep_time'') v2"
       "habit_adjustments (snd s2) = habit_adjustments (snd s1) @ R2"
       "list_all (\<lambda>a. a_habit a = ''sleep_time'') R2"
    unfolding rule_effect_def by (auto simp: list_all_iff)
  from meal_rule_effect [OF m] obtain v3 R3 where
    3: "fst s3 = fst s2 @ map (proposal ''meal_times'') v3"
       "habit_adjustments (snd s3) = habit_adjustments (snd s2) @ R3"
       "list_all (\<lambda>a. a_habit a = ''meal_times'') R3"
    unfolding rule_effect_def by (auto simp: list_all_iff)
  from bad_habits_rule_effect [OF b] obtain v4 R4 where
    4: "ps = fst s3 @ map (proposal ''bad_habits'') v4"
       "habit_adjustments d' = habit_adjustments (snd s3) @ R4"
       "list_all (\<lambda>a. a_habit a = ''bad_habits'') R4"
    unfolding rule_effect_def by (auto simp: list_all_iff)
  show ?thesis
    by (rule that [OF w s m b 1(1) 2(1) 3(1) 4(1) 1(2) 2(2) 3(2) 4(2) 1(3) 2(3) 3(3) 4(3)])
qed

lemma filter_other_habit:
  "list_all (\<lambda>a. a_habit a = hb) rows \<Longrightarrow> \<forall>a. P a \<longrightarrow> a_habit a \<noteq> hb \<Longrightarrow> filter P rows = []"
  by (auto simp: list_all_iff filter_empty_conv)

lemma fetch_example: "fetch_latest_routine routine_db 1 = Some example_routine"
  by (simp add: fetch_latest_routine_def routine_db_def example_routine_def)

lemma fetch_early: "fetch_latest_routine early_db 2 = Some early_routine"
  by (simp add: fetch_latest_routine_def early_db_def early_routine_def)

lemma example_run:
  "adjust_habits sample_str True 101 1 routine_db
     = (Inr (PyDict [(''adjustments'', PyList routine_proposals)]), routine_db_after)"
  by code_simp

subsection \<open>Pending rows per habit name\<close>

lemma existing_habits_count:
  "(hb \<in> existing_habits d uid) = (0 < pending_count d uid hb)"
  by (auto simp: existing_habits_def pending_count_def filter_empty_conv)

lemma rule_effect_count:
  assumes "rule_effect hb existing uid st st'"
  shows "pending_count (snd st') u h =
           pending_count (snd st) u h
           + (if u = uid \<and> h = hb
              then length (habit_adjustments (snd st')) - length (habit_adjustments (snd st))
              else 0)"
proof -
  from assms obtain rows where
    rows: "habit_adjustments (snd st') = habit_adjustments (snd st) @ rows"
      "list_all (\<lambda>a. a_habit a = hb \<and> a_user_id a = uid \<and> a_status a = ''pending'') rows"
    unfolding rule_effect_def by blast
  have "length (filter (\<lambda>a. a_user_id a = u \<and> a_status a = ''pending'' \<and> a_habit a = h) rows)
          = (if u = uid \<and> h = hb then length rows else 0)"
    using rows(2) by (induction rows) auto
  then show ?thesis
    by (simp add: pending_count_def rows(1))
qed

lemma rule_effect_grow:
  assumes "rule_effect hb existing uid st st'"
  shows "hb \<in> existing \<Longrightarrow>
           length (habit_adjustments (snd st')) = length (habit_adjustments (snd st))"
    and "hb \<noteq> ''meal_times'' \<Longrightarrow>
           length (habit_adjustments (snd st')) \<le> length (habit_adjustments (snd st)) + 1"
  using assms unfolding rule_effect_def by auto

lemma run_rules_count:
  assumes "run_rules py_str existing uid today r d = Inr (ps, d')"
  shows "(u \<noteq> uid \<longrightarrow> pending_count d' u h = pending_count d u h)
       \<and> (h \<in> existing \<longrightarrow> pending_count d' u h = pending_count d u h)
       \<and> (h \<noteq> ''meal_times'' \<longrightarrow> pending_count d' u h \<le> pending_count d u h + 1)"
proof -
  from assms obtain s1 s2 s3 where
    w: "wake_up_rule existing uid today r ([], d) = Inr s1" and
    s: "sleep_rule existing uid today r s1 = Inr s2" and
    m: "meal_rule existing uid today r s2 = Inr s3" and
    b: "bad_habits_rule py_str existing uid today r s3 = Inr (ps, d')"
    by (rule run_rules_Inr)
  note e1 = wake_up_rule_effect [OF w] and e2 = sleep_rule_effect [OF s]
    and e3 = meal_rule_effect [OF m] and e4 = bad_habits_rule_effect [OF b]
  note c = rule_effect_count [OF e1, of u h] rule_effect_count [OF e2, of u h]
    rule_effect_count [OF e3, of u h] rule_effect_count [OF e4, of u h]
  note g = rule_effect_grow [OF e1] rule_effect_grow [OF e2]
    rule_effect_grow [OF e3] rule_effect_grow [OF e4]
  have 1: "u \<noteq> uid \<longrightarrow> pending_count d' u h = pending_count d u h"
    using c by simp
  have 2: "h \<in> existing \<longrightarrow> pending_count d' u h = pending_count d u h"
    using c g(1,3,5,7) by (auto split: if_splits)
  have 3: "h \<noteq> ''meal_times'' \<longrightarrow> pending_count d' u h \<le> pending_count d u h + 1"
    using c g(2,4,8) by (auto split: if_splits)
  from 1 2 3 show ?thesis by blast
qed

text \<open>
  C1, as stated, fails: the meal rule stores one pending row per meal time, all under
  the habit name \<^verbatim>\<open>"meal_times"\<close>. From a state with no adjustment at all, one call
  for the routine with three meal times leaves three pending rows of that name.
\<close>

theorem pending_unique_counterexample:
  "habit_adjustments routine_db = []
   \<and> pending_count (snd (adjust_habits sample_str True 101 1 routine_db)) 1 ''meal_times'' = 3"
  by code_simp

text \<open>
  C1, amended. If every user has at most one pending row per habit name other than
  \<^verbatim>\<open>"meal_times"\<close>, then so it is after any single call of \<^verbatim>\<open>adjust_habits\<close>,
  whatever the call answers; and for every habit name that is pending for the user
  when the call starts, \<^verbatim>\<open>"meal_times"\<close> included, the call adds no pending row: the
  rule of that name is skipped.
\<close>

theorem adjust_habits_pending_unique:
  assumes "\<forall>u h. h \<noteq> ''meal_times'' \<longrightarrow> pending_count d u h \<le> 1"
  shows "(\<forall>u h. h \<noteq> ''meal_times'' \<longrightarrow>
            pending_count (snd (adjust_habits py_str reachable today uid d)) u h \<le> 1)
       \<and> (\<forall>h. h \<in> existing_habits d uid \<longrightarrow>
            pending_count (snd (adjust_habits py_str reachable today uid d)) uid h
              = pending_count d uid h)"
proof (cases rule: adjust_habits_cases [of py_str reachable today uid d])
  case same
  with assms show ?thesis by simp
next
  case (ran r ps d')
  let ?d' = "snd (adjust_habits py_str reachable today uid d)"
  have run: "run_rules py_str (existing_habits d uid) uid today r d = Inr (ps, ?d')"
    using ran by simp
  have "pending_count ?d' u h \<le> 1" if h: "h \<noteq> ''meal_times''" for u h
  proof (cases "u = uid \<and> h \<notin> existing_habits d uid")
    case True
    then have "pending_count d u h = 0"
      by (simp add: existing_habits_count)
    with run_rules_count [OF run, of u h] h show ?thesis by simp
  next
    case False
    with run_rules_count [OF run, of u h] have "pending_count ?d' u h = pending_count d u h"
      by blast
    with assms h show ?thesis by simp
  qed
  moreover have "pending_count ?d' uid h = pending_count d uid h"
    if "h \<in> existing_habits d uid" for h
    using run_rules_count [OF run, of uid h] that by blast
  ultimately show ?thesis by blast
qed

theorem adjust_habits_pending_unique_witness:
  "pending_count pending_db 1 ''wake_up_time'' = 1
   \<and> pending_count (snd (adjust_habits sample_str True 101 1 pending_db)) 1 ''wake_up_time'' = 1
   \<and> pending_count (snd (adjust_habits sample_str True 101 1 pending_db)) 1 ''sleep_time'' \<le> 1"
proof -
  have inv: "\<forall>u h. h \<noteq> ''meal_times'' \<longrightarrow> pending_count pending_db u h \<le> 1"
    by (simp add: pending_count_def pending_db_def)
  have one: "pending_count pending_db 1 ''wake_up_time'' = 1"
    by (simp add: pending_count_def pending_db_def example_adjustment_def)
  then have "''wake_up_time'' \<in> existing_habits pending_db 1"
    by (simp add: existing_habits_count)
  with adjust_habits_pending_unique [OF inv, of sample_str True 101 1] one
  show ?thesis by simp
qed

subsection \<open>The wake-up and sleep rules\<close>

text \<open>
  C6. When the sleep time of the latest routine has an hour of at most one, a call
  answers with no proposal for \<^verbatim>\<open>"wake_up_time"\<close> and none for \<^verbatim>\<open>"sleep_time"\<close>, and
  stores no row of either name, whatever the other fields of the routine and the
  pending habit names are.
\<close>

theorem early_sleeper_no_shift:
  assumes "fetch_latest_routine d uid = Some r" and "r_sleep_time r = PyTime s" and "hour s \<le> 1"
  shows "(\<forall>ps v. fst (adjust_habits py_str reachable today uid d)
                    = Inr (PyDict [(''adjustments'', PyList ps)]) \<longrightarrow>
            proposal ''wake_up_time'' v \<notin> set ps \<and> proposal ''sleep_time'' v \<notin> set ps)
       \<and> filter (\<lambda>a. a_habit a = ''wake_up_time'' \<or> a_habit a = ''sleep_time'')
            (habit_adjustments (snd (adjust_habits py_str reachable today uid d)))
          = filter (\<lambda>a. a_habit a = ''wake_up_time'' \<or> a_habit a = ''sleep_time'')
              (habit_adjustments d)"
proof (cases rule: adjust_habits_cases [of py_str reachable today uid d])
  case same
  then show ?thesis by simp
next
  case (ran r' ps d')
  with assms(1) have run: "run_rules py_str (existing_habits d uid) uid today r d = Inr (ps, d')"
    by simp
  from run obtain s1 s2 s3 v1 v2 v3 v4 R1 R2 R3 R4 where
    w: "wake_up_rule (existing_habits d uid) uid today r ([], d) = Inr s1" and
    s: "sleep_rule (existing_habits d uid) uid today r s1 = Inr s2" and
    m: "meal_rule (existing_habits d uid) uid today r s2 = Inr s3" and
    b: "bad_habits_rule py_str (existing_habits d uid) uid today r s3 = Inr (ps, d')" and
    p1: "fst s1 = map (proposal ''wake_up_time'') v1" and
    p2: "fst s2 = fst s1 @ map (proposal ''sleep_time'') v2" and
    p3: "fst s3 = fst s2 @ map (proposal ''meal_times'') v3" and
    p4: "ps = fst s3 @ map (proposal ''bad_habits'') v4" and
    a1: "habit_adjustments (snd s1) = habit_adjustments d @ R1" and
    a2: "habit_adjustments (snd s2) = habit_adjustments (snd s1) @ R2" and
    a3: "habit_adjustments (snd s3) = habit_adjustments (snd s2) @ R3" and
    a4: "habit_adjustments d' = habit_adjustments (snd s3) @ R4" and
    h1: "list_all (\<lambda>a. a_habit a = ''wake_up_time'') R1" and
    h2: "list_all (\<lambda>a. a_habit a = ''sleep_time'') R2" and
    h3: "list_all (\<lambda>a. a_habit a = ''meal_times'') R3" and
    h4: "list_all (\<lambda>a. a_habit a = ''bad_habits'') R4"
    by (rule run_rules_shape)
  from w s have s2: "s2 = ([], d)"
    by (simp add: wake_up_rule_skip [OF assms(2,3)] sleep_rule_skip [OF assms(2,3)])
  have ps: "ps = map (proposal ''meal_times'') v3 @ map (proposal ''bad_habits'') v4"
    using p3 p4 s2 by simp
  have rows: "habit_adjustments d' = habit_adjustments d @ R3 @ R4"
    using a3 a4 s2 by simp
  have "proposal ''wake_up_time'' v \<notin> set ps \<and> proposal ''sleep_time'' v \<notin> set ps" for v
    unfolding ps by auto
  moreover have "filter (\<lambda>a. a_habit a = ''wake_up_time'' \<or> a_habit a = ''sleep_time'')
                   (habit_adjustments d')
               = filter (\<lambda>a. a_habit a = ''wake_up_time'' \<or> a_habit a = ''sleep_time'')
                   (habit_adjustments d)"
    unfolding rows
    by (simp add: filter_other_habit [OF h3] filter_other_habit [OF h4])
  ultimately show ?thesis
    using ran(4) by simp
qed

theorem early_sleeper_no_shift_witness:
  "r_sleep_time early_routine = PyTime \<lparr>hour = 1, minute = 59, second = 0\<rparr>
   \<and> fst (adjust_habits sample_str True 101 2 early_db)
       = Inr (PyDict [(''adjustments'', PyList [proposal ''bad_habits'' (PyList [])])])
   \<and> proposal ''wake_up_time'' (PyStr ''08:00'') \<notin> set [proposal ''bad_habits'' (PyList [])]
   \<and> filter (\<lambda>a. a_habit a = ''wake_up_time'' \<or> a_habit a = ''sleep_time'')
            (habit_adjustments (snd (adjust_habits sample_str True 101 2 early_db))) = []"
proof -
  have e: "fst (adjust_habits sample_str True 101 2 early_db)
       = Inr (PyDict [(''adjustments'', PyList [proposal ''bad_habits'' (PyList [])])])"
    by code_simp
  have s: "r_sleep_time early_routine = PyTime \<lparr>hour = 1, minute = 59, second = 0\<rparr>"
    by (simp add: early_routine_def)
  show ?thesis
    using early_sleeper_no_shift [OF fetch_early s, of sample_str True 101] e s
    by (simp add: early_db_def)
qed

text \<open>
  C5. When the sleep hour of the latest routine is greater than one and the call
  answers with proposals: if \<^verbatim>\<open>"wake_up_time"\<close> is not pending, the one wake-up
  proposal is the text of hour \<open>max 6 (wake hour - 1)\<close> and the wake minute, two
  digits each, stored with the reason \<^verbatim>\<open>"Gradual wake-up shift"\<close>; if \<^verbatim>\<open>"sleep_time"\<close>
  is not pending, the one sleep proposal is the text of hour \<open>max 22 (sleep hour - 1)\<close>
  and the sleep minute, stored with the reason \<^verbatim>\<open>"Improve sleep quality"\<close>. Each
  clamp looks at its own hour only, and each text reads back as that hour and minute.
\<close>

theorem late_sleeper_shift:
  assumes "fetch_latest_routine d uid = Some r" and "r_sleep_time r = PyTime s" and "1 < hour s"
    and "adjust_habits py_str True today uid d
           = (Inr (PyDict [(''adjustments'', PyList ps)]), d')"
  shows "(\<forall>w. ''wake_up_time'' \<notin> existing_habits d uid \<and> r_wake_up_time r = PyTime w \<longrightarrow>
            (\<forall>v. (proposal ''wake_up_time'' v \<in> set ps)
                   = (v = PyStr (fmt02d (max 6 (hour w - 1)) @ '':'' @ fmt02d (minute w))))
          \<and> (\<exists>i. \<lparr>a_adjustment_id = i, a_user_id = uid, a_applied_on = today,
                    a_current_value = PyTime w,
                    a_next_suggested_value =
                      PyStr (fmt02d (max 6 (hour w - 1)) @ '':'' @ fmt02d (minute w)),
                    a_reason = ''Gradual wake-up shift'', a_status = ''pending'',
                    a_habit = ''wake_up_time''\<rparr> \<in> set (habit_adjustments d')))
       \<and> (''sleep_time'' \<notin> existing_habits d uid \<longrightarrow>
            (\<forall>v. (proposal ''sleep_time'' v \<in> set ps)
                   = (v = PyStr (fmt02d (max 22 (hour s - 1)) @ '':'' @ fmt02d (minute s))))
          \<and> (\<exists>i. \<lparr>a_adjustment_id = i, a_user_id = uid, a_applied_on = today,
                    a_current_value = PyTime s,
                    a_next_suggested_value =
                      PyStr (fmt02d (max 22 (hour s - 1)) @ '':'' @ fmt02d (minute s)),
                    a_reason = ''Improve sleep quality'', a_status = ''pending'',
                    a_habit = ''sleep_time''\<rparr> \<in> set (habit_adjustments d')))
       \<and> (\<forall>w. parse_hm (fmt02d (max 6 (hour w - 1)) @ '':'' @ fmt02d (minute w))
               = Inr (max 6 (hour w - 1), minute w))
       \<and> parse_hm (fmt02d (max 22 (hour s - 1)) @ '':'' @ fmt02d (minute s))
           = Inr (max 22 (hour s - 1), minute s)"
proof -
  let ?ex = "existing_habits d uid"
  have run: "run_rules py_str ?ex uid today r d = Inr (ps, d')"
    using assms(1,4)
    by (cases "run_rules py_str ?ex uid today r d")
       (auto simp: adjust_habits_raises adjust_habits_returns)
  from run obtain s1 s2 s3 v1 v2 v3 v4 R1 R2 R3 R4 where
    w: "wake_up_rule ?ex uid today r ([], d) = Inr s1" and
    s: "sleep_rule ?ex uid today r s1 = Inr s2" and
    m: "meal_rule ?ex uid today r s2 = Inr s3" and
    b: "bad_habits_rule py_str ?ex uid today r s3 = Inr (ps, d')" and
    p1: "fst s1 = map (proposal ''wake_up_time'') v1" and
    p2: "fst s2 = fst s1 @ map (proposal ''sleep_time'') v2" and
    p3: "fst s3 = fst s2 @ map (proposal ''meal_times'') v3" and
    p4: "ps = fst s3 @ map (proposal ''bad_habits'') v4" and
    a1: "habit_adjustments (snd s1) = habit_adjustments d @ R1" and
    a2: "habit_adjustments (snd s2) = habit_adjustments (snd s1) @ R2" and
    a3: "habit_adjustments (snd s3) = habit_adjustments (snd s2) @ R3" and
    a4: "habit_adjustments d' = habit_adjustments (snd s3) @ R4" and
    h1: "list_all (\<lambda>a. a_habit a = ''wake_up_time'') R1" and
    h2: "list_all (\<lambda>a. a_habit a = ''sleep_time'') R2" and
    h3: "list_all (\<lambda>a. a_habit a = ''meal_times'') R3" and
    h4: "list_all (\<lambda>a. a_habit a = ''bad_habits'') R4"
    by (rule run_rules_shape)
  have wake: "(\<forall>v. (proposal ''wake_up_time'' v \<in> set ps)
                   = (v = PyStr (fmt02d (max 6 (hour w - 1)) @ '':'' @ fmt02d (minute w))))
          \<and> (\<exists>i. \<lparr>a_adjustment_id = i, a_user_id = uid, a_applied_on = today,
                    a_current_value = PyTime w,
                    a_next_suggested_value =
                      PyStr (fmt02d (max 6 (hour w - 1)) @ '':'' @ fmt02d (minute w)),
                    a_reason = ''Gradual wake-up shift'', a_status = ''pending'',
                    a_habit = ''wake_up_time''\<rparr> \<in> set (habit_adjustments d'))"
    if nw: "''wake_up_time'' \<notin> ?ex" and rw: "r_wake_up_time r = PyTime w" for w
  proof -
    let ?new = "PyStr (fmt02d (max 6 (hour w - 1)) @ '':'' @ fmt02d (minute w))"
    from w wake_up_rule_fire [OF nw assms(2,3) rw, of uid today "([], d)"]
    have s1: "s1 = ([proposal ''wake_up_time'' ?new],
                    insert_adjustment d uid today (PyTime w) ?new
                      ''Gradual wake-up shift'' ''wake_up_time'')"
      by simp
    have ps: "ps = [proposal ''wake_up_time'' ?new] @ map (proposal ''sleep_time'') v2
                @ map (proposal ''meal_times'') v3 @ map (proposal ''bad_habits'') v4"
      using p2 p3 p4 s1 by simp
    have rows: "habit_adjustments d' =
       habit_adjustments d @
         [\<lparr>a_adjustment_id = adjustment_seq d, a_user_id = uid, a_applied_on = today,
           a_current_value = PyTime w, a_next_suggested_value = ?new,
           a_reason = ''Gradual wake-up shift'', a_status = ''pending'',
           a_habit = ''wake_up_time''\<rparr>] @ R2 @ R3 @ R4"
      using a2 a3 a4 s1 by simp
    have "(proposal ''wake_up_time'' v \<in> set ps) = (v = ?new)" for v
      unfolding ps by auto
    moreover have "\<exists>i. \<lparr>a_adjustment_id = i, a_user_id = uid, a_applied_on = today,
                    a_current_value = PyTime w, a_next_suggested_value = ?new,
                    a_reason = ''Gradual wake-up shift'', a_status = ''pending'',
                    a_habit = ''wake_up_time''\<rparr> \<in> set (habit_adjustments d')"
      unfolding rows by (rule exI [of _ "adjustment_seq d"]) simp
    ultimately show ?thesis by blast
  qed
  have sleep: "(\<forall>v. (proposal ''sleep_time'' v \<in> set ps)
                   = (v = PyStr (fmt02d (max 22 (hour s - 1)) @ '':'' @ fmt02d (minute s))))
          \<and> (\<exists>i. \<lparr>a_adjustment_id = i, a_user_id = uid, a_applied_on = today,
                    a_current_value = PyTime s,
                    a_next_suggested_value =
                      PyStr (fmt02d (max 22 (hour s - 1)) @ '':'' @ fmt02d (minute s)),
                    a_reason = ''Improve sleep quality'', a_status = ''pending'',
                    a_habit = ''sleep_time''\<rparr> \<in> set (habit_adjustments d'))"
    if ns: "''sleep_time'' \<notin> ?ex"
  proof -
    let ?new = "PyStr (fmt02d (max 22 (hour s - 1)) @ '':'' @ fmt02d (minute s))"
    from s sleep_rule_fire [OF ns assms(2,3), of uid today s1]
    have s2: "s2 = (fst s1 @ [proposal ''sleep_time'' ?new],
                    insert_adjustment (snd s1) uid today (PyTime s) ?new
                      ''Improve sleep quality'' ''sleep_time'')"
      by simp
    have ps: "ps = map (proposal ''wake_up_time'') v1 @ [proposal ''sleep_time'' ?new]
                @ map (proposal ''meal_times'') v3 @ map (proposal ''bad_habits'') v4"
      using p1 p3 p4 s2 by simp
    have rows: "habit_adjustments d' =
       habit_adjustments (snd s1) @
         [\<lparr>a_adjustment_id = adjustment_seq (snd s1), a_user_id = uid, a_applied_on = today,
           a_current_value = PyTime s, a_next_suggested_value = ?new,
           a_reason = ''Improve sleep quality'', a_status = ''pending'',
           a_habit = ''sleep_time''\<rparr>] @ R3 @ R4"
      using a3 a4 s2 by simp
    have "(proposal ''sleep_time'' v \<in> set ps) = (v = ?new)" for v
      unfolding ps by auto
    moreover have "\<exists>i. \<lparr>a_adjustment_id = i, a_user_id = uid, a_applied_on = today,
                    a_current_value = PyTime s, a_next_suggested_value = ?new,
                    a_reason = ''Improve sleep quality'', a_status = ''pending'',
                    a_habit = ''sleep_time''\<rparr> \<in> set (habit_adjustments d')"
      unfolding rows by (rule exI [of _ "adjustment_seq (snd s1)"]) simp
    ultimately show ?thesis by blast
  qed
  have read: "parse_hm (fmt02d a @ '':'' @ fmt02d b) = Inr (a, b)" for a b
    by (rule parse_hm_fmt)
  from wake sleep read show ?thesis by blast
qed

theorem late_sleeper_shift_witness:
  "hour \<lparr>hour = 3, minute = 45, second = 0\<rparr> = 3
   \<and> proposal ''wake_up_time'' (PyStr ''06:15'') \<in> set routine_proposals
   \<and> proposal ''sleep_time'' (PyStr ''22:45'') \<in> set routine_proposals
   \<and> proposal ''sleep_time'' (PyStr ''02:45'') \<notin> set routine_proposals
   \<and> parse_hm ''22:45'' = Inr (22, 45)"
proof -
  have s: "r_sleep_time example_routine = PyTime \<lparr>hour = 3, minute = 45, second = 0\<rparr>"
    and w: "r_wake_up_time example_routine = PyTime \<lparr>hour = 7, minute = 15, second = 0\<rparr>"
    by (simp_all add: example_routine_def)
  have h: "1 < hour \<lparr>hour = 3, minute = 45, second = 0\<rparr>"
    by simp
  have f1: "fmt02d (max 6 (7 - 1)) @ '':'' @ fmt02d 15 = ''06:15''"
    and f2: "fmt02d (max 22 (3 - 1)) @ '':'' @ fmt02d 45 = ''22:45''"
    by code_simp+
  have e: "existing_habits routine_db 1 = {}"
    by (simp add: existing_habits_def routine_db_def)
  from late_sleeper_shift [OF fetch_example s h example_run] w e f1 f2
  have "(\<forall>v. (proposal ''wake_up_time'' v \<in> set routine_proposals) = (v = PyStr ''06:15''))
      \<and> (\<forall>v. (proposal ''sleep_time'' v \<in> set routine_proposals) = (v = PyStr ''22:45''))
      \<and> parse_hm ''22:45'' = Inr (22, 45)"
    by (simp, blast)
  then show ?thesis
    by simp
qed

subsection \<open>When a call returns\<close>

text \<open>When every entry can be read, the meal loop returns.\<close>

lemma meal_loop_returns:
  "\<forall>t\<in>set ts. \<exists>s h m. t = PyStr s \<and> parse_hm s = Inr (h, m) \<Longrightarrow>
     \<exists>acc'. meal_loop uid today ts acc = Inr acc'"
proof (induction ts arbitrary: acc)
  case Nil
  show ?case by simp
next
  case (Cons t ts)
  from Cons.prems obtain s h m where t: "t = PyStr s" "parse_hm s = Inr (h, m)"
    by auto
  from Cons.prems have "\<forall>t\<in>set ts. \<exists>s h m. t = PyStr s \<and> parse_hm s = Inr (h, m)"
    by simp
  from Cons.IH [OF this] t show ?case
    by (simp add: Let_def)
qed

text \<open>
  A call raises only on a routine it cannot read: with times of day in the two time
  fields and meal times that can be read, all four rules return.
\<close>

lemma run_rules_returns:
  assumes "r_wake_up_time r = PyTime w" and "r_sleep_time r = PyTime s"
    and "\<forall>ts. r_meal_times r = PyList ts \<longrightarrow>
           (\<forall>t\<in>set ts. \<exists>s h m. t = PyStr s \<and> parse_hm s = Inr (h, m))"
  shows "\<exists>st. run_rules py_str existing uid today r cur = Inr st"
proof -
  have "\<exists>s1. wake_up_rule existing uid today r ([], cur) = Inr s1"
  proof (cases "''wake_up_time'' \<in> existing")
    case True
    then show ?thesis by (simp add: wake_up_rule_def)
  next
    case False
    then show ?thesis
      using wake_up_rule_fire [OF False assms(2) _ assms(1)] wake_up_rule_skip [OF assms(2)]
      by (cases "1 < hour s") simp_all
  qed
  then obtain s1 where 1: "wake_up_rule existing uid today r ([], cur) = Inr s1"
    by blast
  have "\<exists>s2. sleep_rule existing uid today r s1 = Inr s2"
  proof (cases "''sleep_time'' \<in> existing")
    case True
    then show ?thesis by (simp add: sleep_rule_def)
  next
    case False
    then show ?thesis
      using sleep_rule_fire [OF False assms(2)] sleep_rule_skip [OF assms(2)]
      by (cases "1 < hour s") simp_all
  qed
  then obtain s2 where 2: "sleep_rule existing uid today r s1 = Inr s2"
    by blast
  obtain s3 where 3: "meal_rule existing uid today r s2 = Inr s3"
  proof (cases "\<exists>ts. ''meal_times'' \<notin> existing \<and> r_meal_times r = PyList ts")
    case True
    then obtain ts where ts: "''meal_times'' \<notin> existing" "r_meal_times r = PyList ts"
      by blast
    with assms(3) have "\<forall>t\<in>set ts. \<exists>s h m. t = PyStr s \<and> parse_hm s = Inr (h, m)"
      by blast
    from meal_loop_returns [OF this, of uid today "([], snd s2)"]
    obtain acc' where "meal_loop uid today ts ([], snd s2) = Inr acc'"
      by blast
    with ts that show ?thesis
      by (cases acc') (simp add: meal_rule_def)
  next
    case False
    with that show ?thesis
      by (cases "r_meal_times r") (simp_all add: meal_rule_def)
  qed
  have "\<exists>st. bad_habits_rule py_str existing uid today r s3 = Inr st"
    by (simp add: bad_habits_rule_eq)
  then obtain st where 4: "bad_habits_rule py_str existing uid today r s3 = Inr st"
    by blast
  from 1 2 3 4 show ?thesis
    by (simp add: run_rules_def and_then_def)
qed

subsection \<open>The meal rule\<close>

text \<open>
  C2. The claim lets the meal rule fire only on a non-empty list. The code asks only
  whether the field is a list: for the routine whose meal times are the empty list (and
  whose other rules stay silent) the call answers with a proposal for \<^verbatim>\<open>"meal_times"\<close>
  whose suggestion is the empty list, and stores nothing.
\<close>

theorem meal_rule_fires_on_empty_list:
  "adjust_habits sample_str True 101 3 no_meals_db
     = (Inr (PyDict [(''adjustments'', PyList [proposal ''meal_times'' (PyList [])])]),
        no_meals_db)"
  by code_simp

text \<open>
  The meal loop on well-formed times: every hour goes down by one, not below six, the
  minutes stay, and one row is stored per meal time.
\<close>

lemma meal_loop_retimes:
  "\<exists>cur'. meal_loop uid today (map (\<lambda>(h, m). PyStr (fmt02d h @ '':'' @ fmt02d m)) hms) acc
            = Inr (fst acc @ map (\<lambda>(h, m). PyStr (fmt02d (max 6 (h - 1)) @ '':'' @ fmt02d m)) hms,
                   cur')
          \<and> length (habit_adjustments cur') = length (habit_adjustments (snd acc)) + length hms"
proof (induction hms arbitrary: acc)
  case Nil
  show ?case by (rule exI [of _ "snd acc"]) simp
next
  case (Cons hm hms)
  obtain h m where hm: "hm = (h, m)" by (cases hm)
  let ?new = "PyStr (fmt02d (max 6 (h - 1)) @ '':'' @ fmt02d m)"
  let ?acc = "(fst acc @ [?new],
               insert_adjustment (snd acc) uid today (PyStr (fmt02d h @ '':'' @ fmt02d m)) ?new
                 ''Optimize meal timing'' ''meal_times'')"
  from Cons.IH [of ?acc] obtain cur' where
    "meal_loop uid today (map (\<lambda>(h, m). PyStr (fmt02d h @ '':'' @ fmt02d m)) hms) ?acc
       = Inr (fst ?acc @ map (\<lambda>(h, m). PyStr (fmt02d (max 6 (h - 1)) @ '':'' @ fmt02d m)) hms,
              cur')"
    "length (habit_adjustments cur') = length (habit_adjustments (snd ?acc)) + length hms"
    by blast
  moreover have "parse_hm (fmt02d h @ CHR '':'' # fmt02d m) = Inr (h, m)"
    using parse_hm_fmt [of h m] by simp
  ultimately show ?case
    by (intro exI [of _ cur']) (simp add: hm insert_adjustment_def)
qed

subsection \<open>The bad-habit rule\<close>

text \<open>
  C7. When a call answers with proposals, there is a proposal for \<^verbatim>\<open>"bad_habits"\<close>
  exactly when that name is not pending and the bad-habits field is a non-empty list;
  the proposal is then that list without its last element, and a pending row with the
  reason \<^verbatim>\<open>"Reduce negative habits"\<close> holds the texts of the list and of the shortened
  list; otherwise no row of that name is stored.
\<close>

theorem bad_habits_reduction:
  assumes "fetch_latest_routine d uid = Some r"
    and "adjust_habits py_str True today uid d
           = (Inr (PyDict [(''adjustments'', PyList ps)]), d')"
  shows "((\<exists>v. proposal ''bad_habits'' v \<in> set ps)
            = (''bad_habits'' \<notin> existing_habits d uid
               \<and> (\<exists>xs. r_bad_habits r = PyList xs \<and> xs \<noteq> [])))
       \<and> (\<forall>xs. ''bad_habits'' \<notin> existing_habits d uid \<and> r_bad_habits r = PyList xs \<and> xs \<noteq> [] \<longrightarrow>
            (\<forall>v. (proposal ''bad_habits'' v \<in> set ps) = (v = PyList (butlast xs)))
          \<and> (\<exists>i. \<lparr>a_adjustment_id = i, a_user_id = uid, a_applied_on = today,
                    a_current_value = PyStr (py_str (PyList xs)),
                    a_next_suggested_value = PyStr (py_str (PyList (butlast xs))),
                    a_reason = ''Reduce negative habits'', a_status = ''pending'',
                    a_habit = ''bad_habits''\<rparr> \<in> set (habit_adjustments d')))
       \<and> (\<not> (''bad_habits'' \<notin> existing_habits d uid
               \<and> (\<exists>xs. r_bad_habits r = PyList xs \<and> xs \<noteq> [])) \<longrightarrow>
            filter (\<lambda>a. a_habit a = ''bad_habits'') (habit_adjustments d')
              = filter (\<lambda>a. a_habit a = ''bad_habits'') (habit_adjustments d))"
proof -
  let ?ex = "existing_habits d uid"
  let ?fires = "''bad_habits'' \<notin> ?ex \<and> (\<exists>xs. r_bad_habits r = PyList xs \<and> xs \<noteq> [])"
  have run: "run_rules py_str ?ex uid today r d = Inr (ps, d')"
    using assms
    by (cases "run_rules py_str ?ex uid today r d")
       (auto simp: adjust_habits_raises adjust_habits_returns)
  from run obtain s1 s2 s3 v1 v2 v3 v4 R1 R2 R3 R4 where
    w: "wake_up_rule ?ex uid today r ([], d) = Inr s1" and
    s: "sleep_rule ?ex uid today r s1 = Inr s2" and
    m: "meal_rule ?ex uid today r s2 = Inr s3" and
    b: "bad_habits_rule py_str ?ex uid today r s3 = Inr (ps, d')" and
    p1: "fst s1 = map (proposal ''wake_up_time'') v1" and
    p2: "fst s2 = fst s1 @ map (proposal ''sleep_time'') v2" and
    p3: "fst s3 = fst s2 @ map (proposal ''meal_times'') v3" and
    p4: "ps = fst s3 @ map (proposal ''bad_habits'') v4" and
    a1: "habit_adjustments (snd s1) = habit_adjustments d @ R1" and
    a2: "habit_adjustments (snd s2) = habit_adjustments (snd s1) @ R2" and
    a3: "habit_adjustments (snd s3) = habit_adjustments (snd s2) @ R3" and
    a4: "habit_adjustments d' = habit_adjustments (snd s3) @ R4" and
    h1: "list_all (\<lambda>a. a_habit a = ''wake_up_time'') R1" and
    h2: "list_all (\<lambda>a. a_habit a = ''sleep_time'') R2" and
    h3: "list_all (\<lambda>a. a_habit a = ''meal_times'') R3" and
    h4: "list_all (\<lambda>a. a_habit a = ''bad_habits'') R4"
    by (rule run_rules_shape)
  have s3: "fst s3 = map (proposal ''wake_up_time'') v1 @ map (proposal ''sleep_time'') v2
              @ map (proposal ''meal_times'') v3"
    using p1 p2 p3 by simp
  have r3: "habit_adjustments (snd s3) = habit_adjustments d @ R1 @ R2 @ R3"
    using a1 a2 a3 by simp
  have none: "proposal ''bad_habits'' v \<notin> set (fst s3)" for v
    unfolding s3 by auto
  have skip: "(\<forall>v. proposal ''bad_habits'' v \<notin> set ps)
        \<and> filter (\<lambda>a. a_habit a = ''bad_habits'') (habit_adjustments d')
              = filter (\<lambda>a. a_habit a = ''bad_habits'') (habit_adjustments d)"
    if "\<not> ?fires"
  proof -
    from b that have "(ps, d') = s3"
      by (simp add: bad_habits_rule_eq)
    then have "ps = fst s3" "d' = snd s3" by auto
    then show ?thesis
      using none r3
      by (simp add: filter_other_habit [OF h1] filter_other_habit [OF h2]
          filter_other_habit [OF h3])
  qed
  have fire: "(\<forall>v. (proposal ''bad_habits'' v \<in> set ps) = (v = PyList (butlast xs)))
          \<and> (\<exists>i. \<lparr>a_adjustment_id = i, a_user_id = uid, a_applied_on = today,
                    a_current_value = PyStr (py_str (PyList xs)),
                    a_next_suggested_value = PyStr (py_str (PyList (butlast xs))),
                    a_reason = ''Reduce negative habits'', a_status = ''pending'',
                    a_habit = ''bad_habits''\<rparr> \<in> set (habit_adjustments d'))"
    if f: "''bad_habits'' \<notin> ?ex" "r_bad_habits r = PyList xs" "xs \<noteq> []" for xs
  proof -
    from b f have eq: "(ps, d') =
        (fst s3 @ [proposal ''bad_habits'' (PyList (butlast xs))],
         insert_adjustment (snd s3) uid today (PyStr (py_str (PyList xs)))
           (PyStr (py_str (PyList (butlast xs)))) ''Reduce negative habits'' ''bad_habits'')"
      by (simp add: bad_habits_rule_eq)
    then have ps: "ps = fst s3 @ [proposal ''bad_habits'' (PyList (butlast xs))]"
      and d': "d' = insert_adjustment (snd s3) uid today (PyStr (py_str (PyList xs)))
           (PyStr (py_str (PyList (butlast xs)))) ''Reduce negative habits'' ''bad_habits''"
      by auto
    have "(proposal ''bad_habits'' v \<in> set ps) = (v = PyList (butlast xs))" for v
      unfolding ps using none [of v] by auto
    moreover have "\<exists>i. \<lparr>a_adjustment_id = i, a_user_id = uid, a_applied_on = today,
                    a_current_value = PyStr (py_str (PyList xs)),
                    a_next_suggested_value = PyStr (py_str (PyList (butlast xs))),
                    a_reason = ''Reduce negative habits'', a_status = ''pending'',
                    a_habit = ''bad_habits''\<rparr> \<in> set (habit_adjustments d')"
      unfolding d' by (rule exI [of _ "adjustment_seq (snd s3)"]) simp
    ultimately show ?thesis by blast
  qed
  have iff: "(\<exists>v. proposal ''bad_habits'' v \<in> set ps) = ?fires"
  proof (cases ?fires)
    case True
    then obtain xs where "''bad_habits'' \<notin> ?ex" "r_bad_habits r = PyList xs" "xs \<noteq> []"
      by blast
    from fire [OF this] True show ?thesis by blast
  next
    case False
    with skip show ?thesis by blast
  qed
  from iff fire skip show ?thesis by blast
qed

theorem bad_habits_reduction_witness:
  "r_bad_habits example_routine = PyList [PyStr ''coffee'', PyStr ''sugar'', PyStr ''lateNight'']
   \<and> proposal ''bad_habits'' (PyList [PyStr ''coffee'', PyStr ''sugar'']) \<in> set routine_proposals
   \<and> proposal ''bad_habits'' (PyList [PyStr ''coffee'']) \<notin> set routine_proposals"
proof -
  have b: "r_bad_habits example_routine
             = PyList [PyStr ''coffee'', PyStr ''sugar'', PyStr ''lateNight'']"
    by (simp add: example_routine_def)
  have e: "existing_habits routine_db 1 = {}"
    by (simp add: existing_habits_def routine_db_def)
  from bad_habits_reduction [OF fetch_example example_run] b e
  show ?thesis by simp
qed

section \<open>Properties of the reporters\<close>

subsection \<open>The progress report\<close>

lemma progress_loop_eq:
  "progress_loop py_str rows (accepted, pending, rejected) =
     (accepted @ map (progress_entry py_str) (filter (\<lambda>a. a_status a = ''accepted'') rows),
      pending @ map (progress_entry py_str) (filter (\<lambda>a. a_status a = ''pending'') rows),
      rejected @ map (progress_entry py_str)
        (filter (\<lambda>a. a_status a \<noteq> ''accepted'' \<and> a_status a \<noteq> ''pending'') rows))"
  by (induction rows arbitrary: accepted pending rejected) (simp_all add: Let_def)

lemma set_fetch_adjustments:
  "set (fetch_adjustments d uid) = {a \<in> set (habit_adjustments d). a_user_id a = uid}"
  by (auto simp: fetch_adjustments_def)

text \<open>
  C10. For a user with at least one adjustment, the \<^verbatim>\<open>"rejected"\<close> list of the progress
  report holds, in fetched order, the entries of exactly the rows whose status is
  neither \<^verbatim>\<open>"accepted"\<close> nor \<^verbatim>\<open>"pending"\<close>, whatever that status is; the other two
  lists hold the rows of their status. So every stored adjustment of the user with
  any other status is among the rows reported as rejected.
\<close>

theorem habit_progress_rejected_catch_all:
  assumes "\<exists>a\<in>set (habit_adjustments d). a_user_id a = uid"
  shows "habit_progress py_str True uid d =
           PyDict [(''accepted'', PyList (map (progress_entry py_str)
                      (filter (\<lambda>a. a_status a = ''accepted'') (fetch_adjustments d uid)))),
                   (''pending'', PyList (map (progress_entry py_str)
                      (filter (\<lambda>a. a_status a = ''pending'') (fetch_adjustments d uid)))),
                   (''rejected'', PyList (map (progress_entry py_str)
                      (filter (\<lambda>a. a_status a \<noteq> ''accepted'' \<and> a_status a \<noteq> ''pending'')
                         (fetch_adjustments d uid))))]
       \<and> (\<forall>a\<in>set (habit_adjustments d).
             a_user_id a = uid \<and> a_status a \<noteq> ''accepted'' \<and> a_status a \<noteq> ''pending'' \<longrightarrow>
             a \<in> set (filter (\<lambda>a. a_status a \<noteq> ''accepted'' \<and> a_status a \<noteq> ''pending'')
                        (fetch_adjustments d uid)))"
proof -
  from assms have "set (fetch_adjustments d uid) \<noteq> {}"
    by (auto simp: set_fetch_adjustments)
  then have ne: "fetch_adjustments d uid \<noteq> []"
    by auto
  then show ?thesis
    by (simp add: habit_progress_def get_db_connection_def progress_loop_eq Let_def
        set_fetch_adjustments)
qed

theorem habit_progress_rejected_catch_all_witness:
  "habit_progress sample_str True 1 progress_db =
     PyDict [(''accepted'', PyList [PyDict [(''habit'', PyStr ''sleep_time''),
                (''previous_value'', PyStr ''03:45''), (''new_value'', PyStr ''22:45''),
                (''date'', PyStr ''?'')]]),
             (''pending'', PyList [PyDict [(''habit'', PyStr ''wake_up_time''),
                (''previous_value'', PyStr ''07:15''), (''new_value'', PyStr ''06:15''),
                (''date'', PyStr ''?'')]]),
             (''rejected'', PyList [PyDict [(''habit'', PyStr ''meal_times''),
                (''previous_value'', PyStr ''07:00''), (''new_value'', PyStr ''06:00''),
                (''date'', PyStr ''?'')],
              PyDict [(''habit'', PyStr ''meal_times''),
                (''previous_value'', PyStr ''12:30''), (''new_value'', PyStr ''11:30''),
                (''date'', PyStr ''?'')]])]"
proof -
  have a: "\<exists>a\<in>set (habit_adjustments progress_db). a_user_id a = 1"
    by (simp add: progress_db_def pending_row_def)
  have 1: "map (progress_entry sample_str)
             (filter (\<lambda>a. a_status a = ''accepted'') (fetch_adjustments progress_db 1))
           = [PyDict [(''habit'', PyStr ''sleep_time''),
                (''previous_value'', PyStr ''03:45''), (''new_value'', PyStr ''22:45''),
                (''date'', PyStr ''?'')]]"
    by code_simp
  have 2: "map (progress_entry sample_str)
             (filter (\<lambda>a. a_status a = ''pending'') (fetch_adjustments progress_db 1))
           = [PyDict [(''habit'', PyStr ''wake_up_time''),
                (''previous_value'', PyStr ''07:15''), (''new_value'', PyStr ''06:15''),
                (''date'', PyStr ''?'')]]"
    by code_simp
  have 3: "map (progress_entry sample_str)
             (filter (\<lambda>a. a_status a \<noteq> ''accepted'' \<and> a_status a \<noteq> ''pending'')
                (fetch_adjustments progress_db 1))
           = [PyDict [(''habit'', PyStr ''meal_times''),
                (''previous_value'', PyStr ''07:00''), (''new_value'', PyStr ''06:00''),
                (''date'', PyStr ''?'')],
              PyDict [(''habit'', PyStr ''meal_times''),
                (''previous_value'', PyStr ''12:30''), (''new_value'', PyStr ''11:30''),
                (''date'', PyStr ''?'')]]"
    by code_simp
  from habit_progress_rejected_catch_all [OF a, of sample_str] show ?thesis
    by (simp only: 1 2 3)
qed

subsection \<open>The projections\<close>

lemma first_seen_snoc:
  "first_seen (xs @ [x]) = (if x \<in> set xs then first_seen xs else first_seen xs @ [x])"
  by (simp add: first_seen_def)

lemma set_first_seen [simp]: "set (first_seen xs) = set xs"
  by (simp add: first_seen_def)

lemma distinct_first_seen [simp]: "distinct (first_seen xs)"
  by (simp add: first_seen_def)

lemma update_absent:
  "k \<notin> fst ` set al \<Longrightarrow> AList.update k v al = al @ [(k, v)]"
  by (induction al) auto

lemma map_entry_absent:
  "k \<notin> fst ` set al \<Longrightarrow> AList.map_entry k f al = al"
  by (induction al) auto

lemma map_entry_append_absent:
  "k \<notin> fst ` set al \<Longrightarrow> AList.map_entry k f (al @ bl) = al @ AList.map_entry k f bl"
  by (induction al) auto

lemma map_entry_distinct:
  "distinct (map fst al) \<Longrightarrow>
     AList.map_entry k f al = map (\<lambda>(h, p). if h = k then (h, f p) else (h, p)) al"
proof (induction al)
  case Nil
  then show ?case by simp
next
  case (Cons a al)
  obtain h p where a: "a = (h, p)" by (cases a)
  show ?case
  proof (cases "h = k")
    case True
    with Cons.prems a have "k \<notin> fst ` set al" by auto
    then have "map (\<lambda>(h, p). if h = k then (h, f p) else (h, p)) al = al"
      by (induction al) auto
    with True a show ?thesis by simp
  next
    case False
    with Cons a show ?thesis by simp
  qed
qed

lemma map_of_summaries:
  "(map_of (map (summary rows) hs) k = None) = (k \<notin> set hs)"
  by (induction hs) (auto simp: summary_def)

lemma foldl_project_row:
  "foldl project_row [] rows = map (summary rows) (first_seen (map h_habit rows))"
proof (induction rows rule: rev_induct)
  case Nil
  then show ?case by (simp add: first_seen_def)
next
  case (snoc row rows)
  let ?k = "h_habit row"
  let ?P = "map (summary rows) (first_seen (map h_habit rows))"
  let ?g = "\<lambda>p. p\<lparr>trend := trend p @ [(h_date_applied row, h_new_value row)],
                   current := h_new_value row\<rparr>"
  have keys: "map fst ?P = first_seen (map h_habit rows)"
    by (simp add: summary_def comp_def)
  have other: "summary (rows @ [row]) h = summary rows h" if "h \<noteq> ?k" for h
    using that by (simp add: summary_def)
  show ?case
  proof (cases "\<exists>r\<in>set rows. h_habit r = ?k")
    case False
    then have nk: "\<forall>r\<in>set rows. h_habit r \<noteq> ?k"
      by simp
    then have notin: "?k \<notin> set (first_seen (map h_habit rows))"
      by (simp add: image_iff) metis
    have none: "map_of ?P ?k = None"
      using notin by (simp add: map_of_summaries)
    have "fst ` set ?P = set (first_seen (map h_habit rows))"
      using keys by (metis list.set_map)
    with notin have absent: "?k \<notin> fst ` set ?P"
      by simp
    have new: "summary (rows @ [row]) ?k
                 = (?k, ?g \<lparr>start = h_previous_value row, current = h_new_value row, trend = []\<rparr>)"
    proof -
      from nk have "filter (\<lambda>r. h_habit r = ?k) rows = []"
        by (simp add: filter_empty_conv)
      then show ?thesis by (simp add: summary_def)
    qed
    have same: "map (summary (rows @ [row])) (first_seen (map h_habit rows)) = ?P"
    proof (rule map_cong [OF refl])
      fix h assume "h \<in> set (first_seen (map h_habit rows))"
      with notin have "h \<noteq> ?k" by metis
      then show "summary (rows @ [row]) h = summary rows h" by (rule other)
    qed
    have "project_row ?P row
            = ?P @ [(?k, ?g \<lparr>start = h_previous_value row, current = h_new_value row,
                              trend = []\<rparr>)]"
      unfolding project_row_def Let_def none
      by (simp add: update_absent [OF absent] map_entry_append_absent [OF absent])
    also have "\<dots> = map (summary (rows @ [row])) (first_seen (map h_habit (rows @ [row])))"
      using notin by (simp add: first_seen_snoc same new)
    finally show ?thesis
      by (simp add: snoc.IH)
  next
    case True
    then have isin: "?k \<in> set (first_seen (map h_habit rows))"
      by (simp add: image_iff) metis
    have some: "map_of ?P ?k \<noteq> None"
      using isin by (simp add: map_of_summaries)
    have ne: "filter (\<lambda>r. h_habit r = ?k) rows \<noteq> []"
      using True by (simp add: filter_empty_conv)
    have upd: "summary (rows @ [row]) ?k = (?k, ?g (snd (summary rows ?k)))"
      using ne by (simp add: summary_def)
    have "project_row ?P row = AList.map_entry ?k ?g ?P"
      using some unfolding project_row_def Let_def by (auto split: option.splits)
    also have "\<dots> = map (\<lambda>(h, p). if h = ?k then (h, ?g p) else (h, p)) ?P"
      by (rule map_entry_distinct) (simp only: keys distinct_first_seen)
    also have "\<dots> = map (summary (rows @ [row])) (first_seen (map h_habit rows))"
    proof (simp, intro ballI impI conjI allI)
      fix r assume "r \<in> set rows"
      show "(case summary rows (h_habit r) of
              (h, p) \<Rightarrow> if h = h_habit row then (h, ?g p) else (h, p))
            = summary (rows @ [row]) (h_habit r)"
      proof (cases "h_habit r = ?k")
        case True
        then show ?thesis
          using upd by (simp add: summary_def)
      next
        case False
        then show ?thesis
          using other [of "h_habit r"] by (simp add: summary_def)
      qed
    qed
    also have "\<dots> = map (summary (rows @ [row])) (first_seen (map h_habit (rows @ [row])))"
      using isin by (simp add: first_seen_snoc)
    finally show ?thesis
      by (simp add: snoc.IH)
  qed
qed

lemma sorted_fetch_accepted_history:
  "sorted (map h_date_applied (fetch_accepted_history d uid))"
  by (simp add: fetch_accepted_history_def)

lemma set_fetch_accepted_history:
  "set (fetch_accepted_history d uid)
     = {h \<in> set (habit_history d). h_user_id h = uid \<and> h_status h = ''accepted''}"
  by (auto simp: fetch_accepted_history_def)

text \<open>
  C9. For a user with accepted history, the projections are one sentence per habit
  name of the accepted rows, each name once, in the order of first occurrence among
  the rows fetched by ascending date; the sentence for a habit is "... could improve
  from START to CURRENT ..." with START the previous value of the habit's first fetched
  row and CURRENT the new value of its last fetched row (every such habit has a row).
\<close>

theorem habit_projections_restate:
  assumes "\<exists>h\<in>set (habit_history d). h_user_id h = uid \<and> h_status h = ''accepted''"
  shows "habit_projections py_str True uid d =
           PyDict [(''habit_projections'',
             PyList (map (\<lambda>hb. PyStr (future_insight py_str hb
                        (h_previous_value
                           (hd (filter (\<lambda>r. h_habit r = hb) (fetch_accepted_history d uid))))
                        (h_new_value
                           (last (filter (\<lambda>r. h_habit r = hb) (fetch_accepted_history d uid))))))
                     (first_seen (map h_habit (fetch_accepted_history d uid)))))]
       \<and> (\<forall>hb\<in>set (first_seen (map h_habit (fetch_accepted_history d uid))).
             filter (\<lambda>r. h_habit r = hb) (fetch_accepted_history d uid) \<noteq> [])
       \<and> distinct (first_seen (map h_habit (fetch_accepted_history d uid)))
       \<and> set (first_seen (map h_habit (fetch_accepted_history d uid)))
           = set (map h_habit (fetch_accepted_history d uid))
       \<and> sorted (map h_date_applied (fetch_accepted_history d uid))
       \<and> set (fetch_accepted_history d uid)
           = {h \<in> set (habit_history d). h_user_id h = uid \<and> h_status h = ''accepted''}"
proof -
  from assms have "set (fetch_accepted_history d uid) \<noteq> {}"
    unfolding set_fetch_accepted_history by blast
  then have ne: "fetch_accepted_history d uid \<noteq> []"
    by auto
  have "habit_projections py_str True uid d =
          PyDict [(''habit_projections'',
            PyList (map (\<lambda>(hb, data). PyStr (future_insight py_str hb (start data) (current data)))
                      (foldl project_row [] (fetch_accepted_history d uid))))]"
    using ne by (simp add: habit_projections_def get_db_connection_def Let_def)
  also have "map (\<lambda>(hb, data). PyStr (future_insight py_str hb (start data) (current data)))
                      (foldl project_row [] (fetch_accepted_history d uid))
           = map (\<lambda>hb. PyStr (future_insight py_str hb
                        (h_previous_value
                           (hd (filter (\<lambda>r. h_habit r = hb) (fetch_accepted_history d uid))))
                        (h_new_value
                           (last (filter (\<lambda>r. h_habit r = hb) (fetch_accepted_history d uid))))))
                     (first_seen (map h_habit (fetch_accepted_history d uid)))"
    by (simp add: foldl_project_row summary_def comp_def)
  finally have sentences: "habit_projections py_str True uid d =
           PyDict [(''habit_projections'',
             PyList (map (\<lambda>hb. PyStr (future_insight py_str hb
                        (h_previous_value
                           (hd (filter (\<lambda>r. h_habit r = hb) (fetch_accepted_history d uid))))
                        (h_new_value
                           (last (filter (\<lambda>r. h_habit r = hb) (fetch_accepted_history d uid))))))
                     (first_seen (map h_habit (fetch_accepted_history d uid)))))]" .
  have rows: "filter (\<lambda>r. h_habit r = hb) (fetch_accepted_history d uid) \<noteq> []"
    if "hb \<in> set (first_seen (map h_habit (fetch_accepted_history d uid)))" for hb
  proof -
    from that obtain r where "r \<in> set (fetch_accepted_history d uid)" "h_habit r = hb"
      by (metis set_first_seen list.set_map imageE)
    then show ?thesis
      by (simp add: filter_empty_conv) metis
  qed
  from sentences rows show ?thesis
    by (simp add: sorted_fetch_accepted_history set_fetch_accepted_history)
qed

theorem habit_projections_restate_witness:
  "habit_projections sample_str True 1 history_db =
     PyDict [(''habit_projections'',
       PyList [PyStr (future_insight sample_str ''wake_up_time'' (PyStr ''07:15'') (PyStr ''06:00'')),
               PyStr (future_insight sample_str ''bad_habits'' (PyStr ''[coffee, sugar]'')
                        (PyStr ''[coffee]''))])]
   \<and> PyStr (future_insight sample_str ''wake_up_time'' (PyStr ''07:15'') (PyStr ''06:00''))
       = PyStr (chart_mark @
           '' If you continue, your wake_up_time could improve from '' @ [CHR 0x27] @ ''07:15'' @
           [CHR 0x27] @ '' to '' @ [CHR 0x27] @ ''06:00'' @ [CHR 0x27] @ '' within a few months!'')"
proof -
  have a: "\<exists>h\<in>set (habit_history history_db). h_user_id h = 1 \<and> h_status h = ''accepted''"
    by (simp add: history_db_def)
  have e: "map (\<lambda>hb. PyStr (future_insight sample_str hb
                        (h_previous_value
                           (hd (filter (\<lambda>r. h_habit r = hb) (fetch_accepted_history history_db 1))))
                        (h_new_value
                           (last (filter (\<lambda>r. h_habit r = hb) (fetch_accepted_history history_db 1))))))
                     (first_seen (map h_habit (fetch_accepted_history history_db 1)))
     = [PyStr (future_insight sample_str ''wake_up_time'' (PyStr ''07:15'') (PyStr ''06:00'')),
        PyStr (future_insight sample_str ''bad_habits'' (PyStr ''[coffee, sugar]'')
                        (PyStr ''[coffee]''))]"
    by code_simp
  have f: "future_insight sample_str ''wake_up_time'' (PyStr ''07:15'') (PyStr ''06:00'')
       = chart_mark @
           '' If you continue, your wake_up_time could improve from '' @ [CHR 0x27] @ ''07:15'' @
           [CHR 0x27] @ '' to '' @ [CHR 0x27] @ ''06:00'' @ [CHR 0x27] @ '' within a few months!''"
    by (simp add: future_insight_def py_format_def)
  from habit_projections_restate [OF a, of sample_str] show ?thesis
    by (simp only: e f)
qed

end
